theory Spec2Isabelle
  imports Complex_Main
begin

section \<open>Configuration\<close>

text \<open>
  The bot's numbers are JavaScript numbers. They are modelled as exact reals: rounding,
  NaN and the infinities are outside the model. Double arithmetic rounds where the model
  does not: for an entry price of 1 and a price of 1.2 the code computes a profit of
  19.999999999999996 percent, below a threshold of 20 that the exact value meets. The
  general statements below are about the exact model. Their sample inputs are chosen so
  that every comparison comes out in double arithmetic as it does here, and the samples
  of the claims on the stop loss and on the take-profit grid use binary fractions (prices
  1.25, 1.5, 1.75, percentages such as 12.5 and 6.25), on which the code's arithmetic is
  exact. The configuration object of \<^verbatim>\<open>config.ts\<close> is a parameter of every operation;
  \<open>defaultConfig\<close> below is the object literal of the repository.
\<close>

record token_buy_config =
  buy_mode :: string
  balance_percentage :: real
  min_sol_amount :: real
  max_sol_amount :: real
  reserve_sol :: real
  sol_amount :: real

record breakeven_config =
  breakeven_enabled :: bool
  trigger_profit_percent :: real
  breakeven_offset_percent :: real

record trailing_stop_config =
  trailing_enabled :: bool
  activation_profit_percent :: real
  trailing_distance_percent :: real

record risk_management_config =
  initial_stop_loss_percent :: real
  breakeven :: breakeven_config
  trailing_stop :: trailing_stop_config

record tp_level =
  profit_percent :: real
  sell_percent :: real
  description :: string

record take_profit_grid_config =
  grid_enabled :: bool
  levels :: "tp_level list"

record advanced_trading_config =
  advanced_enabled :: bool
  risk_management :: risk_management_config
  take_profit_grid :: take_profit_grid_config

record config =
  token_buy :: token_buy_config
  advanced_trading :: advanced_trading_config

text \<open>JavaScript's \<^verbatim>\<open>x || d\<close> on a number: zero is falsy, so the default is taken.\<close>

definition orDefault :: "real \<Rightarrow> real \<Rightarrow> real" where
  "orDefault x d = (if x = 0 then d else x)"

definition defaultConfig :: config where
  "defaultConfig =
     \<lparr> token_buy =
         \<lparr> buy_mode = ''percentage'', balance_percentage = 8, min_sol_amount = 5 / 1000,
           max_sol_amount = 1 / 2, reserve_sol = 2 / 10, sol_amount = 5 / 100 \<rparr>,
       advanced_trading =
         \<lparr> advanced_enabled = True,
           risk_management =
             \<lparr> initial_stop_loss_percent = 60,
               breakeven = \<lparr> breakeven_enabled = True, trigger_profit_percent = 25,
                             breakeven_offset_percent = 8 \<rparr>,
               trailing_stop = \<lparr> trailing_enabled = True, activation_profit_percent = 40,
                                 trailing_distance_percent = 25 \<rparr> \<rparr>,
           take_profit_grid =
             \<lparr> grid_enabled = True,
               levels =
                 [ \<lparr> profit_percent = 30, sell_percent = 15, description = ''Quick profit lock'' \<rparr>,
                   \<lparr> profit_percent = 75, sell_percent = 25, description = ''Major profit taking'' \<rparr>,
                   \<lparr> profit_percent = 150, sell_percent = 30, description = ''Gem profit realization'' \<rparr>,
                   \<lparr> profit_percent = 300, sell_percent = 20, description = ''Moon bag reduction'' \<rparr>,
                   \<lparr> profit_percent = 800, sell_percent = 10, description = ''Final moon bag'' \<rparr> ] \<rparr> \<rparr> \<rparr>"

section \<open>The process state\<close>

text \<open>
  The handlers are process-wide singletons. Their fields are gathered in one record:
  \<open>positions\<close> belongs to the position manager, \<open>isTrading\<close> and \<open>tradingQueue\<close> to the
  trading engine, \<open>balanceCache\<close> and \<open>cacheTimestamp\<close> to the balance manager,
  \<open>priceCache\<close> and \<open>failureCount\<close> to the price feed handler. Three fields record what
  leaves the process: \<open>outbox\<close> lists, in order, the orders posted to the execution
  service and the Telegram notifications requested; \<open>requests\<close> counts the requests made
  to the execution service, so that its replies can be looked up by request number;
  \<open>inFlight\<close> lists the tokens whose trade pipeline has started and not yet settled.
\<close>

record Position =
  tokenAddress :: string
  entryPrice :: real
  entryAmount :: real
  remainingAmount :: real
  entryTime :: int
  currentStopLoss :: real
  isBreakevenMoved :: bool
  isTrailingActive :: bool
  highestPrice :: real
  executedTpLevels :: "nat list"
  totalSold :: real

record BalanceInfo =
  solBalance :: real
  lamportsBalance :: nat
  availableForTrading :: real
  calculatedBuyAmount :: real
  percentageUsed :: "real option"
  reservedAmount :: real

record PriceInfo =
  cachedPrice :: real
  cachedAt :: int

datatype sell_reason = StopLoss | TrailingStopLoss | TakeProfitLevel nat string

text \<open>
  The text of an error notification is kept as data: which alert it is and the values
  the message is built from.
\<close>

datatype alert =
    TakeProfitFailed string nat real real
  | PriceFeedWarning string nat string
  | TradeExecutionFailed string
  | EmergencyStopExecuted

datatype event =
    BuyPosted string real
  | SellPosted nat real
  | TokenBought string real real
  | TokenSold sell_reason real real string real
  | BreakevenMoved string real real
  | TrailingActivated string real real
  | ErrorAlert alert

record bot =
  positions :: "string \<rightharpoonup> Position"
  isTrading :: bool
  tradingQueue :: "string list"
  inFlight :: "string list"
  balanceCache :: "BalanceInfo option"
  cacheTimestamp :: int
  priceCache :: "string \<rightharpoonup> PriceInfo"
  failureCount :: "string \<rightharpoonup> nat"
  outbox :: "event list"
  requests :: nat

definition notify :: "event \<Rightarrow> bot \<Rightarrow> bot" where
  "notify e b = b\<lparr>outbox := outbox b @ [e]\<rparr>"

definition initialBot :: bot where
  "initialBot =
     \<lparr> positions = Map.empty, isTrading = False, tradingQueue = [], inFlight = [],
       balanceCache = None, cacheTimestamp = 0, priceCache = Map.empty,
       failureCount = Map.empty, outbox = [], requests = 0 \<rparr>"

section \<open>Balance manager\<close>

definition LAMPORTS_PER_SOL :: real where
  "LAMPORTS_PER_SOL = 1000000000"

definition CACHE_DURATION :: int where
  "CACHE_DURATION = 2000"

text \<open>\<^verbatim>\<open>calculateBuyAmount\<close>: the pair is \<open>(buyAmount, percentageUsed)\<close>.\<close>

definition calculateBuyAmount :: "config \<Rightarrow> real \<Rightarrow> real \<times> real option" where
  "calculateBuyAmount cfg availableBalance =
     (let buyConfig = token_buy cfg in
      if buy_mode buyConfig = ''percentage'' then
        let percentageAmount = (availableBalance * balance_percentage buyConfig) / 100;
            minAmount = orDefault (min_sol_amount buyConfig) (1 / 100);
            maxAmount = orDefault (max_sol_amount buyConfig) 1;
            clampedAmount = max minAmount (min percentageAmount maxAmount);
            clampedAmount2 = min clampedAmount availableBalance
        in (clampedAmount2, Some (balance_percentage buyConfig))
      else
        let fixedAmount = orDefault (sol_amount buyConfig) (1 / 10);
            finalAmount = min fixedAmount availableBalance
        in (finalAmount,
            Some (if availableBalance > 0 then (finalAmount / availableBalance) * 100 else 0)))"

text \<open>The snapshot a fresh fetch builds from the wallet's lamports.\<close>

definition freshBalance :: "config \<Rightarrow> nat \<Rightarrow> BalanceInfo" where
  "freshBalance cfg lamports =
     (let sol = real lamports / LAMPORTS_PER_SOL;
          reserved = orDefault (reserve_sol (token_buy cfg)) (15 / 100);
          available = max 0 (sol - reserved);
          sized = calculateBuyAmount cfg available
      in \<lparr> solBalance = sol, lamportsBalance = lamports, availableForTrading = available,
           calculatedBuyAmount = fst sized, percentageUsed = snd sized,
           reservedAmount = reserved \<rparr>)"

text \<open>
  \<^verbatim>\<open>getBalance(forceRefresh)\<close> at time \<open>now\<close>. \<open>rpc\<close> is what the RPC node answers if it
  is asked: the lamports, or \<open>None\<close> when the request throws; the exception is rethrown
  to the caller (\<open>None\<close> as the result) and the cache is left as it was.
\<close>

definition getBalance :: "config \<Rightarrow> bool \<Rightarrow> int \<Rightarrow> nat option \<Rightarrow> bot \<Rightarrow> BalanceInfo option \<times> bot" where
  "getBalance cfg forceRefresh now rpc b =
     (if \<not> forceRefresh \<and> balanceCache b \<noteq> None \<and> now - cacheTimestamp b < CACHE_DURATION
      then (balanceCache b, b)
      else (case rpc of
              None \<Rightarrow> (None, b)
            | Some lamports \<Rightarrow>
                (Some (freshBalance cfg lamports),
                 b\<lparr>balanceCache := Some (freshBalance cfg lamports), cacheTimestamp := now\<rparr>)))"

record afford_result =
  canTrade :: bool
  reason :: "string option"
  availableAmount :: "real option"
  recommendedAmount :: "real option"

text \<open>
  The decision of \<^verbatim>\<open>canAffordTrade\<close> on a snapshot. \<open>fmt\<close> is JavaScript's conversion of
  a number to text inside a template string.
\<close>

definition affordDecision :: "config \<Rightarrow> (real \<Rightarrow> string) \<Rightarrow> BalanceInfo \<Rightarrow> afford_result" where
  "affordDecision cfg fmt balance =
     (if solBalance balance < reservedAmount balance then
        \<lparr> canTrade = False,
          reason = Some (''Insufficient balance (need '' @ fmt (reservedAmount balance) @ '' SOL reserve)''),
          availableAmount = Some (solBalance balance), recommendedAmount = None \<rparr>
      else if calculatedBuyAmount balance \<le> 0 then
        \<lparr> canTrade = False, reason = Some ''Insufficient balance after reserve'',
          availableAmount = Some (availableForTrading balance), recommendedAmount = None \<rparr>
      else
        let minAmount = orDefault (min_sol_amount (token_buy cfg)) (1 / 100) in
        if calculatedBuyAmount balance < minAmount then
          \<lparr> canTrade = False,
            reason = Some (''Amount below minimum ('' @ fmt minAmount @ '' SOL)''),
            availableAmount = Some (calculatedBuyAmount balance),
            recommendedAmount = Some minAmount \<rparr>
        else
          \<lparr> canTrade = True, reason = None,
            availableAmount = Some (calculatedBuyAmount balance), recommendedAmount = None \<rparr>)"

definition canAffordTrade ::
  "config \<Rightarrow> (real \<Rightarrow> string) \<Rightarrow> int \<Rightarrow> nat option \<Rightarrow> bot \<Rightarrow> afford_result \<times> bot" where
  "canAffordTrade cfg fmt now rpc b =
     (case getBalance cfg False now rpc b of
        (None, b') \<Rightarrow>
          (\<lparr> canTrade = False, reason = Some ''Error checking balance'',
             availableAmount = None, recommendedAmount = None \<rparr>, b')
      | (Some balance, b') \<Rightarrow> (affordDecision cfg fmt balance, b'))"


text \<open>The sizing policy in the spec's words, for comparison with \<open>calculateBuyAmount\<close>.\<close>

definition clamp :: "real \<Rightarrow> real \<Rightarrow> real \<Rightarrow> real" where
  "clamp x lo hi = max lo (min x hi)"

section \<open>The execution service\<close>

text \<open>
  The execution service is outside the process. Its answers are inputs of the model,
  indexed by the request number: \<open>walletHoldings ex k\<close> is what \<^verbatim>\<open>getWalletHoldings\<close>
  returns when it is the \<open>k\<close>-th request (\<open>None\<close> for JavaScript's null, returned when the
  fetch fails); \<open>sellStatus ex k\<close> is the HTTP status of the sell posted as \<open>k\<close>-th
  request, \<open>None\<close> when the request is rejected with an error.
\<close>

record WalletPosition =
  walletToken :: string
  walletBalance :: real
  walletValue :: real
  positionId :: nat

record exchange =
  walletHoldings :: "nat \<Rightarrow> WalletPosition list option"
  sellStatus :: "nat \<Rightarrow> nat option"

definition getWalletHoldings :: "exchange \<Rightarrow> bot \<Rightarrow> WalletPosition list option \<times> bot" where
  "getWalletHoldings ex b = (walletHoldings ex (requests b), b\<lparr>requests := Suc (requests b)\<rparr>)"

text \<open>
  \<^verbatim>\<open>sellToken\<close>: invalid parameters are refused before anything is posted; a posted
  order succeeds on status 200 or 201. Only the \<open>success\<close> field of the result is kept.
\<close>

definition sellToken :: "exchange \<Rightarrow> nat \<Rightarrow> real \<Rightarrow> bot \<Rightarrow> bool \<times> bot" where
  "sellToken ex pid percentage b =
     (if pid = 0 \<or> percentage \<le> 0 \<or> percentage > 100 then (False, b)
      else
        let posted = (notify (SellPosted pid percentage) b)\<lparr>requests := Suc (requests b)\<rparr> in
        (case sellStatus ex (requests b) of
           Some status \<Rightarrow> (status = 200 \<or> status = 201, posted)
         | None \<Rightarrow> (False, posted)))"

section \<open>Position manager\<close>

definition addPosition :: "config \<Rightarrow> int \<Rightarrow> string \<Rightarrow> real \<Rightarrow> real \<Rightarrow> bot \<Rightarrow> bot" where
  "addPosition cfg now tok price amount b =
     b\<lparr>positions := (positions b)(tok \<mapsto>
         \<lparr> tokenAddress = tok, entryPrice = price, entryAmount = amount,
           remainingAmount = amount, entryTime = now,
           currentStopLoss =
             price * (1 - initial_stop_loss_percent (risk_management (advanced_trading cfg)) / 100),
           isBreakevenMoved = False, isTrailingActive = False, highestPrice = price,
           executedTpLevels = [], totalSold = 0 \<rparr>)\<rparr>"

definition removePosition :: "string \<Rightarrow> bot \<Rightarrow> bot" where
  "removePosition tok b = b\<lparr>positions := (positions b)(tok := None)\<rparr>"

text \<open>
  \<^verbatim>\<open>executeSell\<close>: look the token up among the wallet's holdings, then sell the given
  percentage of that holding. Every failure, a caught exception included, is the
  result \<open>False\<close>.
\<close>

definition executeSell :: "exchange \<Rightarrow> string \<Rightarrow> real \<Rightarrow> bot \<Rightarrow> bool \<times> bot" where
  "executeSell ex tok percentageToSell b =
     (case getWalletHoldings ex b of
        (None, b1) \<Rightarrow> (False, b1)
      | (Some held, b1) \<Rightarrow>
          if held = [] then (False, b1)
          else (case find (\<lambda>pos. walletToken pos = tok) held of
                  None \<Rightarrow> (False, b1)
                | Some pos \<Rightarrow> sellToken ex (positionId pos) percentageToSell b1))"

text \<open>\<^verbatim>\<open>checkStopLoss\<close>: the result is true exactly when the position was closed.\<close>

definition checkStopLoss :: "exchange \<Rightarrow> string \<Rightarrow> real \<Rightarrow> real \<Rightarrow> bot \<Rightarrow> bool \<times> bot" where
  "checkStopLoss ex tok currentPrice profitPercent b =
     (case positions b tok of
        None \<Rightarrow> (False, b)
      | Some position \<Rightarrow>
          if currentPrice \<le> currentStopLoss position then
            let pnlSol = remainingAmount position * (currentPrice / entryPrice position - 1) in
            (case executeSell ex tok (100 - totalSold position) b of
               (True, b1) \<Rightarrow>
                 (True,
                  removePosition tok
                    (notify (TokenSold (if isTrailingActive position then TrailingStopLoss else StopLoss)
                               profitPercent pnlSol tok currentPrice) b1))
             | (False, b1) \<Rightarrow> (False, b1))
          else (False, b))"

definition checkBreakevenMove :: "config \<Rightarrow> string \<Rightarrow> real \<Rightarrow> bot \<Rightarrow> bot" where
  "checkBreakevenMove cfg tok profitPercent b =
     (case positions b tok of
        None \<Rightarrow> b
      | Some position \<Rightarrow>
          let breakevenConfig = breakeven (risk_management (advanced_trading cfg)) in
          if isBreakevenMoved position then b
          else if \<not> breakeven_enabled breakevenConfig then b
          else if profitPercent \<ge> trigger_profit_percent breakevenConfig then
            let newStopLoss =
                  entryPrice position * (1 + breakeven_offset_percent breakevenConfig / 100)
            in notify (BreakevenMoved tok profitPercent (breakeven_offset_percent breakevenConfig))
                 (b\<lparr>positions := (positions b)(tok \<mapsto>
                      position\<lparr>currentStopLoss := newStopLoss, isBreakevenMoved := True\<rparr>)\<rparr>)
          else b)"

definition checkTrailingStopActivation :: "config \<Rightarrow> string \<Rightarrow> real \<Rightarrow> bot \<Rightarrow> bot" where
  "checkTrailingStopActivation cfg tok profitPercent b =
     (case positions b tok of
        None \<Rightarrow> b
      | Some position \<Rightarrow>
          let trailingConfig = trailing_stop (risk_management (advanced_trading cfg)) in
          if isTrailingActive position then b
          else if \<not> trailing_enabled trailingConfig then b
          else if profitPercent \<ge> activation_profit_percent trailingConfig then
            notify (TrailingActivated tok profitPercent (trailing_distance_percent trailingConfig))
              (b\<lparr>positions := (positions b)(tok \<mapsto> position\<lparr>isTrailingActive := True\<rparr>)\<rparr>)
          else b)"

definition updateTrailingStop :: "config \<Rightarrow> string \<Rightarrow> bot \<Rightarrow> bot" where
  "updateTrailingStop cfg tok b =
     (case positions b tok of
        None \<Rightarrow> b
      | Some position \<Rightarrow>
          if \<not> isTrailingActive position then b
          else
            let trailingConfig = trailing_stop (risk_management (advanced_trading cfg));
                trailingStopPrice =
                  highestPrice position * (1 - trailing_distance_percent trailingConfig / 100)
            in if trailingStopPrice > currentStopLoss position
               then b\<lparr>positions := (positions b)(tok \<mapsto>
                        position\<lparr>currentStopLoss := trailingStopPrice\<rparr>)\<rparr>
               else b)"

text \<open>
  One pass of the loop body of \<^verbatim>\<open>checkTakeProfitGrid\<close>, for level \<open>i\<close>. \<open>position\<close> is the
  loop's local reference to the record, which the store holds as well: a change to it is
  written to the store. The first component of the result is true when the position was
  closed and the function returns instead of going on to the next level.
\<close>

definition takeProfitLevel ::
  "exchange \<Rightarrow> string \<Rightarrow> real \<Rightarrow> real \<Rightarrow> nat \<Rightarrow> tp_level \<Rightarrow> Position \<Rightarrow> bot \<Rightarrow> bool \<times> Position \<times> bot" where
  "takeProfitLevel ex tok currentPrice profitPercent i level position b =
     (if i \<in> set (executedTpLevels position) then (False, position, b)
      else if profitPercent < profit_percent level then (False, position, b)
      else
        (case executeSell ex tok (sell_percent level) b of
           (True, b1) \<Rightarrow>
             let sold = totalSold position + sell_percent level;
                 position' = position\<lparr>executedTpLevels := executedTpLevels position @ [i],
                                      totalSold := sold,
                                      remainingAmount := entryAmount position * (1 - sold / 100)\<rparr>;
                 partialAmount = entryAmount position * (sell_percent level / 100);
                 pnlSol = partialAmount * (currentPrice / entryPrice position - 1);
                 b2 = notify (TokenSold (TakeProfitLevel (i + 1) (description level))
                                profitPercent pnlSol tok currentPrice)
                        (b1\<lparr>positions := (positions b1)(tok \<mapsto> position')\<rparr>)
             in if totalSold position' \<ge> 999 / 10
                then (True, position', removePosition tok b2)
                else (False, position', b2)
         | (False, b1) \<Rightarrow>
             (False, position,
              notify (ErrorAlert (TakeProfitFailed tok (i + 1) currentPrice (profit_percent level))) b1)))"

fun takeProfitLoop ::
  "exchange \<Rightarrow> string \<Rightarrow> real \<Rightarrow> real \<Rightarrow> (nat \<times> tp_level) list \<Rightarrow> Position \<Rightarrow> bot \<Rightarrow> bot" where
  "takeProfitLoop ex tok currentPrice profitPercent [] position b = b"
| "takeProfitLoop ex tok currentPrice profitPercent ((i, level) # rest) position b =
     (case takeProfitLevel ex tok currentPrice profitPercent i level position b of
        (True, position', b') \<Rightarrow> b'
      | (False, position', b') \<Rightarrow> takeProfitLoop ex tok currentPrice profitPercent rest position' b')"

definition checkTakeProfitGrid :: "config \<Rightarrow> exchange \<Rightarrow> string \<Rightarrow> real \<Rightarrow> real \<Rightarrow> bot \<Rightarrow> bot" where
  "checkTakeProfitGrid cfg ex tok currentPrice profitPercent b =
     (case positions b tok of
        None \<Rightarrow> b
      | Some position \<Rightarrow>
          let tpConfig = take_profit_grid (advanced_trading cfg) in
          if \<not> grid_enabled tpConfig then b
          else takeProfitLoop ex tok currentPrice profitPercent
                 (enumerate 0 (levels tpConfig)) position b)"

text \<open>The steps of a tick that follow the stop-loss check, in the order of the source.\<close>

definition afterStopLoss :: "config \<Rightarrow> exchange \<Rightarrow> string \<Rightarrow> real \<Rightarrow> real \<Rightarrow> bot \<Rightarrow> bot" where
  "afterStopLoss cfg ex tok currentPrice profitPercent b =
     checkTakeProfitGrid cfg ex tok currentPrice profitPercent
       (updateTrailingStop cfg tok
          (checkTrailingStopActivation cfg tok profitPercent
             (checkBreakevenMove cfg tok profitPercent b)))"

text \<open>
  The profit in percent of the entry price, in exact arithmetic; the code's value is the
  double nearest to each intermediate result, so the two can differ in the last digits
  (see the note on numbers at the beginning). The engine registers a position only for a
  price above zero; for an entry price of zero JavaScript's division gives NaN or an
  infinity, which the model does not have.
\<close>

definition profitOf :: "Position \<Rightarrow> real \<Rightarrow> real" where
  "profitOf position currentPrice =
     ((currentPrice - entryPrice position) / entryPrice position) * 100"

definition raiseHighest :: "string \<Rightarrow> real \<Rightarrow> bot \<Rightarrow> bot" where
  "raiseHighest tok currentPrice b =
     (case positions b tok of
        None \<Rightarrow> b
      | Some position \<Rightarrow>
          if currentPrice > highestPrice position
          then b\<lparr>positions := (positions b)(tok \<mapsto> position\<lparr>highestPrice := currentPrice\<rparr>)\<rparr>
          else b)"

text \<open>\<^verbatim>\<open>updatePosition\<close>: one price tick for one token.\<close>

definition updatePosition :: "config \<Rightarrow> exchange \<Rightarrow> string \<Rightarrow> real \<Rightarrow> bot \<Rightarrow> bot" where
  "updatePosition cfg ex tok currentPrice b =
     (case positions b tok of
        None \<Rightarrow> b
      | Some position \<Rightarrow>
          let profitPercent = profitOf position currentPrice;
              b0 = raiseHighest tok currentPrice b
          in (case checkStopLoss ex tok currentPrice profitPercent b0 of
                (True, b1) \<Rightarrow> b1
              | (False, b1) \<Rightarrow> afterStopLoss cfg ex tok currentPrice profitPercent b1))"

text \<open>A sequence of ticks for one token, oldest first.\<close>

fun runTicks :: "config \<Rightarrow> exchange \<Rightarrow> string \<Rightarrow> real list \<Rightarrow> bot \<Rightarrow> bot" where
  "runTicks cfg ex tok [] b = b"
| "runTicks cfg ex tok (price # prices) b =
     runTicks cfg ex tok prices (updatePosition cfg ex tok price b)"

section \<open>Price feed handler\<close>

text \<open>
  What the price source answers when it is asked: a number, nothing (\<^verbatim>\<open>null\<close>), or an
  exception.
\<close>

datatype fetched = Quote real | NoQuote | FetchError

definition PRICE_CACHE_DURATION :: int where
  "PRICE_CACHE_DURATION = 3000"

definition MAX_FAILURES_BEFORE_WARNING :: nat where
  "MAX_FAILURES_BEFORE_WARNING = 3"

definition trackFailure :: "string \<Rightarrow> string \<Rightarrow> bot \<Rightarrow> bot" where
  "trackFailure tok why b =
     (let currentCount = (case failureCount b tok of None \<Rightarrow> 0 | Some c \<Rightarrow> c);
          newCount = currentCount + 1;
          b1 = b\<lparr>failureCount := (failureCount b)(tok \<mapsto> newCount)\<rparr>
      in if newCount = MAX_FAILURES_BEFORE_WARNING
         then notify (ErrorAlert (PriceFeedWarning tok newCount why)) b1
         else b1)"

definition priceFromSource :: "int \<Rightarrow> fetched \<Rightarrow> string \<Rightarrow> bot \<Rightarrow> real option \<times> bot" where
  "priceFromSource now answer tok b =
     (case answer of
        Quote p \<Rightarrow>
          if p > 0 \<and> p < 10000000000
          then (Some p,
                b\<lparr>priceCache := (priceCache b)(tok \<mapsto> \<lparr>cachedPrice = p, cachedAt = now\<rparr>),
                  failureCount := (failureCount b)(tok := None)\<rparr>)
          else (None, trackFailure tok ''suspicious_value'' b)
      | NoQuote \<Rightarrow> (None, trackFailure tok ''no_data'' b)
      | FetchError \<Rightarrow> (None, trackFailure tok ''error'' b))"

text \<open>\<^verbatim>\<open>getTokenPrice\<close>: a cached price younger than three seconds is returned unasked.\<close>

definition getTokenPrice :: "int \<Rightarrow> fetched \<Rightarrow> string \<Rightarrow> bot \<Rightarrow> real option \<times> bot" where
  "getTokenPrice now answer tok b =
     (case priceCache b tok of
        Some cached \<Rightarrow>
          if now - cachedAt cached < PRICE_CACHE_DURATION then (Some (cachedPrice cached), b)
          else priceFromSource now answer tok b
      | None \<Rightarrow> priceFromSource now answer tok b)"

text \<open>Consecutive calls for one token, each a cache miss answered as listed.\<close>

fun priceCalls :: "string \<Rightarrow> (int \<times> fetched) list \<Rightarrow> bot \<Rightarrow> bot" where
  "priceCalls tok [] b = b"
| "priceCalls tok ((now, answer) # rest) b = priceCalls tok rest (snd (getTokenPrice now answer tok b))"

definition alertsOf :: "bot \<Rightarrow> alert list" where
  "alertsOf b = concat (map (\<lambda>e. case e of ErrorAlert a \<Rightarrow> [a] | _ \<Rightarrow> []) (outbox b))"

section \<open>Trading engine\<close>















record EmergencySellResult =
  total :: nat
  successful :: nat
  failed :: nat
  details :: "(string \<times> nat \<times> bool) list"

text \<open>
  The sales of \<^verbatim>\<open>emergencySellAll\<close> are started one after the other and awaited
  together; each sells 100 percent of one holding.
\<close>

fun sellEach :: "exchange \<Rightarrow> WalletPosition list \<Rightarrow> bot \<Rightarrow> (string \<times> nat \<times> bool) list \<times> bot" where
  "sellEach ex [] b = ([], b)"
| "sellEach ex (pos # rest) b =
     (case sellToken ex (positionId pos) 100 b of (ok, b1) \<Rightarrow>
        (case sellEach ex rest b1 of (ds, b2) \<Rightarrow>
           ((walletToken pos, positionId pos, ok) # ds, b2)))"

definition emergencySellAll :: "exchange \<Rightarrow> bot \<Rightarrow> EmergencySellResult \<times> bot" where
  "emergencySellAll ex b =
     (case getWalletHoldings ex b of
        (None, b1) \<Rightarrow> (\<lparr> total = 0, successful = 0, failed = 0, details = [] \<rparr>, b1)
      | (Some held, b1) \<Rightarrow>
          if held = [] then (\<lparr> total = 0, successful = 0, failed = 0, details = [] \<rparr>, b1)
          else (case sellEach ex held b1 of (ds, b2) \<Rightarrow>
                  (\<lparr> total = length held,
                     successful = length (filter (\<lambda>d. snd (snd d)) ds),
                     failed = length (filter (\<lambda>d. \<not> snd (snd d)) ds),
                     details = ds \<rparr>, b2)))"

text \<open>
  \<^verbatim>\<open>emergencyStop\<close>. No collaborator lets an exception escape, so the \<^verbatim>\<open>try\<close> block
  runs to its end.
\<close>

definition emergencyStop :: "exchange \<Rightarrow> bot \<Rightarrow> bot" where
  "emergencyStop ex b =
     (case emergencySellAll ex (b\<lparr>isTrading := False, tradingQueue := []\<rparr>) of
        (swept, b1) \<Rightarrow> notify (ErrorAlert EmergencyStopExecuted) b1)"

section \<open>Derived notions\<close>

text \<open>
  The definitions of this section are not functions of the source. They name what the
  statements below talk about; each is tied to the model by a lemma.
\<close>

text \<open>
  \<open>riskSteps\<close> is the record after the steps of one tick that come before the
  take-profit grid, when the stop loss did not close the position: highest price,
  breakeven move, trailing activation, trailing update (lemma \<open>tick_position\<close>).
\<close>

definition riskSteps :: "config \<Rightarrow> real \<Rightarrow> Position \<Rightarrow> Position" where
  "riskSteps cfg currentPrice position =
     (let rm = risk_management (advanced_trading cfg);
          profitPercent = profitOf position currentPrice;
          p0 = (if currentPrice > highestPrice position
                then position\<lparr>highestPrice := currentPrice\<rparr> else position);
          p1 = (if \<not> isBreakevenMoved p0 \<and> breakeven_enabled (breakeven rm)
                   \<and> profitPercent \<ge> trigger_profit_percent (breakeven rm)
                then p0\<lparr>currentStopLoss :=
                          entryPrice p0 * (1 + breakeven_offset_percent (breakeven rm) / 100),
                        isBreakevenMoved := True\<rparr>
                else p0);
          p2 = (if \<not> isTrailingActive p1 \<and> trailing_enabled (trailing_stop rm)
                   \<and> profitPercent \<ge> activation_profit_percent (trailing_stop rm)
                then p1\<lparr>isTrailingActive := True\<rparr> else p1);
          trailingStopPrice =
            highestPrice p2 * (1 - trailing_distance_percent (trailing_stop rm) / 100)
      in if isTrailingActive p2 \<and> trailingStopPrice > currentStopLoss p2
         then p2\<lparr>currentStopLoss := trailingStopPrice\<rparr> else p2)"

text \<open>Two records that differ at most in the fields the take-profit grid writes.\<close>

definition sameRisk :: "Position \<Rightarrow> Position \<Rightarrow> bool" where
  "sameRisk p q =
     (q = p\<lparr>executedTpLevels := executedTpLevels q, totalSold := totalSold q,
            remainingAmount := remainingAmount q\<rparr>)"

definition initialStopLoss :: "config \<Rightarrow> Position \<Rightarrow> real" where
  "initialStopLoss cfg position =
     entryPrice position *
       (1 - initial_stop_loss_percent (risk_management (advanced_trading cfg)) / 100)"

text \<open>
  Where a stop loss comes from: the breakeven move has happened, or the stop is still
  the initial one, or trailing is active and the stop is at most the trailing level of
  the highest price seen.
\<close>

definition stopLossOrigin :: "config \<Rightarrow> Position \<Rightarrow> bool" where
  "stopLossOrigin cfg position =
     (isBreakevenMoved position
      \<or> currentStopLoss position = initialStopLoss cfg position
      \<or> (isTrailingActive position
          \<and> currentStopLoss position \<le>
              highestPrice position *
                (1 - trailing_distance_percent
                       (trailing_stop (risk_management (advanced_trading cfg))) / 100)))"

text \<open>The cached snapshot, if there is one, is the one a fetch computes from its lamports.\<close>

definition cacheSound :: "config \<Rightarrow> bot \<Rightarrow> bool" where
  "cacheSound cfg b =
     (case balanceCache b of
        None \<Rightarrow> True
      | Some balance \<Rightarrow> balance = freshBalance cfg (lamportsBalance balance))"

text \<open>
  A call of \<^verbatim>\<open>getTokenPrice\<close> asks the price source when no cached price is younger than
  three seconds; the answer is a failure when it is no number or a number outside the
  accepted range. \<open>countOf\<close> is the token's failure count, zero when none is recorded.
\<close>

definition cacheExpired :: "bot \<Rightarrow> string \<Rightarrow> int \<Rightarrow> bool" where
  "cacheExpired b tok now =
     (case priceCache b tok of
        None \<Rightarrow> True
      | Some cached \<Rightarrow> PRICE_CACHE_DURATION \<le> now - cachedAt cached)"

definition badAnswer :: "fetched \<Rightarrow> bool" where
  "badAnswer answer = (case answer of Quote p \<Rightarrow> p \<le> 0 \<or> 10000000000 \<le> p | _ \<Rightarrow> True)"

definition failedCall :: "bot \<Rightarrow> string \<Rightarrow> int \<times> fetched \<Rightarrow> bool" where
  "failedCall b tok call = (cacheExpired b tok (fst call) \<and> badAnswer (snd call))"

definition countOf :: "bot \<Rightarrow> string \<Rightarrow> nat" where
  "countOf b tok = (case failureCount b tok of None \<Rightarrow> 0 | Some c \<Rightarrow> c)"


definition failureReason :: "fetched \<Rightarrow> string" where
  "failureReason answer =
     (case answer of
        Quote p \<Rightarrow> ''suspicious_value''
      | NoQuote \<Rightarrow> ''no_data''
      | FetchError \<Rightarrow> ''error'')"


definition soldLevel :: "string \<Rightarrow> event \<Rightarrow> nat list" where
  "soldLevel tok e =
     (case e of
        TokenSold why profitPercent pnlSol tok' price \<Rightarrow>
          (case why of
             TakeProfitLevel n d \<Rightarrow> if tok' = tok then [n - 1] else []
           | _ \<Rightarrow> [])
      | _ \<Rightarrow> [])"

definition soldLevels :: "string \<Rightarrow> event list \<Rightarrow> nat list" where
  "soldLevels tok evs = concat (map (soldLevel tok) evs)"

definition failedLevel :: "string \<Rightarrow> event \<Rightarrow> nat list" where
  "failedLevel tok e =
     (case e of
        ErrorAlert a \<Rightarrow>
          (case a of
             TakeProfitFailed tok' n price target \<Rightarrow> if tok' = tok then [n - 1] else []
           | _ \<Rightarrow> [])
      | _ \<Rightarrow> [])"

definition failedLevels :: "string \<Rightarrow> event list \<Rightarrow> nat list" where
  "failedLevels tok evs = concat (map (failedLevel tok) evs)"









section \<open>Sample inputs\<close>

definition sampleToken :: string where
  "sampleToken = ''So11111111111111111111111111111111111111112''"

definition otherToken :: string where
  "otherToken = ''EPjFWdd5AufqSSqeM2qN1xzybapC8G4wEGGkZwyTDt1v''"

definition sampleHolding :: WalletPosition where
  "sampleHolding =
     \<lparr> walletToken = sampleToken, walletBalance = 1000, walletValue = 1, positionId = 7 \<rparr>"

text \<open>An execution service that answers nothing, one that fills every order, and one
  that rejects every sale among its first six requests.\<close>

definition deafExchange :: exchange where
  "deafExchange = \<lparr> walletHoldings = (\<lambda>k. None), sellStatus = (\<lambda>k. None) \<rparr>"

definition liveExchange :: exchange where
  "liveExchange =
     \<lparr> walletHoldings = (\<lambda>k. Some [sampleHolding]), sellStatus = (\<lambda>k. Some 200) \<rparr>"

definition lateExchange :: exchange where
  "lateExchange =
     \<lparr> walletHoldings = (\<lambda>k. Some [sampleHolding]),
       sellStatus = (\<lambda>k. if k < 6 then None else Some 200) \<rparr>"

text \<open>The position of the sample token, bought at price 1 for 1 SOL.\<close>

definition opened :: "config \<Rightarrow> bot" where
  "opened cfg = addPosition cfg 0 sampleToken 1 1 initialBot"

text \<open>The repository's configuration with other risk settings.\<close>

definition riskConfig :: "real \<Rightarrow> breakeven_config \<Rightarrow> trailing_stop_config \<Rightarrow> config" where
  "riskConfig stopPercent be ts =
     defaultConfig\<lparr>advanced_trading :=
       (advanced_trading defaultConfig)\<lparr>risk_management :=
         \<lparr> initial_stop_loss_percent = stopPercent, breakeven = be, trailing_stop = ts \<rparr>\<rparr>\<rparr>"

text \<open>Trailing engages at 20 percent profit and follows at 12.5 percent; the breakeven
  move waits for 50 percent and sets the stop 6.25 percent above the entry price.\<close>

definition earlyTrailConfig :: config where
  "earlyTrailConfig =
     riskConfig 50
       \<lparr> breakeven_enabled = True, trigger_profit_percent = 50, breakeven_offset_percent = 25 / 4 \<rparr>
       \<lparr> trailing_enabled = True, activation_profit_percent = 20, trailing_distance_percent = 25 / 2 \<rparr>"

text \<open>Percentages above 100: the stop levels are negative prices.\<close>

definition wideTrailConfig :: config where
  "wideTrailConfig =
     riskConfig 300
       \<lparr> breakeven_enabled = True, trigger_profit_percent = 50, breakeven_offset_percent = - 200 \<rparr>
       \<lparr> trailing_enabled = True, activation_profit_percent = 20, trailing_distance_percent = 150 \<rparr>"

text \<open>
  The sample position in a later state: stop loss, the two flags, highest price, executed
  levels and percentage sold.
\<close>

definition sampleAt :: "real \<Rightarrow> bool \<Rightarrow> bool \<Rightarrow> real \<Rightarrow> nat list \<Rightarrow> real \<Rightarrow> Position" where
  "sampleAt stop moved trailing highest executed sold =
     \<lparr> tokenAddress = sampleToken, entryPrice = 1, entryAmount = 1,
       remainingAmount = 1 - sold / 100, entryTime = 0, currentStopLoss = stop,
       isBreakevenMoved = moved, isTrailingActive = trailing, highestPrice = highest,
       executedTpLevels = executed, totalSold = sold \<rparr>"

definition quickLock :: tp_level where
  "quickLock = \<lparr> profit_percent = 30, sell_percent = 15, description = ''Quick profit lock'' \<rparr>"

text \<open>The repository's configuration in fixed mode.\<close>

definition fixedConfig :: config where
  "fixedConfig = defaultConfig\<lparr>token_buy := (token_buy defaultConfig)\<lparr>buy_mode := ''fixed''\<rparr>\<rparr>"

text \<open>A stand-in for the conversion of a number to text.\<close>

definition hashMark :: "real \<Rightarrow> string" where
  "hashMark x = ''#''"



text \<open>The process after its first balance read, at time 0.\<close>

definition cachedBot :: "config \<Rightarrow> nat \<Rightarrow> bot" where
  "cachedBot cfg lamports =
     initialBot\<lparr>balanceCache := Some (freshBalance cfg lamports), cacheTimestamp := 0\<rparr>"





section \<open>Lemmas on the position manager\<close>

lemma sellToken_frame:
  "positions (snd (sellToken ex pid pct b)) = positions b"
  by (simp add: sellToken_def notify_def Let_def split: option.split)

lemma executeSell_frame:
  "positions (snd (executeSell ex tok pct b)) = positions b"
  by (simp add: executeSell_def getWalletHoldings_def sellToken_frame split: option.split)

lemma executeSell_frameD:
  "executeSell ex tok pct b = (r, b') \<Longrightarrow> positions b' = positions b"
  using executeSell_frame[of ex tok pct b] by simp

lemma executeSell_positions_upd:
  "executeSell ex tok pct (b\<lparr>positions := m\<rparr>) =
     (fst (executeSell ex tok pct b), (snd (executeSell ex tok pct b))\<lparr>positions := m\<rparr>)"
  by (simp add: executeSell_def getWalletHoldings_def sellToken_def notify_def Let_def
           split: option.split)

lemma raiseHighest_only_positions:
  "raiseHighest tok price b = b\<lparr>positions := positions (raiseHighest tok price b)\<rparr>"
  by (simp add: raiseHighest_def split: option.split)

lemma executeSell_raise:
  "executeSell ex tok pct (raiseHighest tok price b) =
     (fst (executeSell ex tok pct b),
      (snd (executeSell ex tok pct b))\<lparr>positions := positions (raiseHighest tok price b)\<rparr>)"
proof -
  have "executeSell ex tok pct (raiseHighest tok price b) =
          executeSell ex tok pct (b\<lparr>positions := positions (raiseHighest tok price b)\<rparr>)"
    by (rule arg_cong[OF raiseHighest_only_positions])
  then show ?thesis by (simp only: executeSell_positions_upd)
qed

lemma raiseHighest_position:
  "positions (raiseHighest tok price b) tok =
     map_option (\<lambda>p. if price > highestPrice p then p\<lparr>highestPrice := price\<rparr> else p)
       (positions b tok)"
  by (simp add: raiseHighest_def split: option.split)

lemma checkStopLoss_position:
  "positions (snd (checkStopLoss ex tok price profit b)) tok =
     (if fst (checkStopLoss ex tok price profit b) then None else positions b tok)"
  by (auto simp add: checkStopLoss_def removePosition_def notify_def Let_def
           dest: executeSell_frameD split: option.split prod.split bool.split)

lemma checkBreakevenMove_position:
  "positions (checkBreakevenMove cfg tok profit b) tok =
     map_option
       (\<lambda>p. if \<not> isBreakevenMoved p
               \<and> breakeven_enabled (breakeven (risk_management (advanced_trading cfg)))
               \<and> profit \<ge> trigger_profit_percent (breakeven (risk_management (advanced_trading cfg)))
             then p\<lparr>currentStopLoss :=
                      entryPrice p *
                        (1 + breakeven_offset_percent
                               (breakeven (risk_management (advanced_trading cfg))) / 100),
                    isBreakevenMoved := True\<rparr>
             else p)
       (positions b tok)"
  by (simp add: checkBreakevenMove_def notify_def Let_def split: option.split)

lemma checkTrailingStopActivation_position:
  "positions (checkTrailingStopActivation cfg tok profit b) tok =
     map_option
       (\<lambda>p. if \<not> isTrailingActive p
               \<and> trailing_enabled (trailing_stop (risk_management (advanced_trading cfg)))
               \<and> profit \<ge> activation_profit_percent
                             (trailing_stop (risk_management (advanced_trading cfg)))
             then p\<lparr>isTrailingActive := True\<rparr> else p)
       (positions b tok)"
  by (simp add: checkTrailingStopActivation_def notify_def Let_def split: option.split)

lemma updateTrailingStop_position:
  "positions (updateTrailingStop cfg tok b) tok =
     map_option
       (\<lambda>p. if isTrailingActive p
               \<and> highestPrice p *
                   (1 - trailing_distance_percent
                          (trailing_stop (risk_management (advanced_trading cfg))) / 100)
                 > currentStopLoss p
             then p\<lparr>currentStopLoss :=
                      highestPrice p *
                        (1 - trailing_distance_percent
                               (trailing_stop (risk_management (advanced_trading cfg))) / 100)\<rparr>
             else p)
       (positions b tok)"
  by (simp add: updateTrailingStop_def Let_def split: option.split)

lemma sameRisk_refl: "sameRisk p p"
  by (simp add: sameRisk_def)

lemma sameRisk_trans: "sameRisk p q \<Longrightarrow> sameRisk q r \<Longrightarrow> sameRisk p r"
  unfolding sameRisk_def by (cases p, cases q, cases r) simp

lemma takeProfitLevel_cases:
  assumes "takeProfitLevel ex tok price profit i level p b = (gone, p', b')"
  shows "sameRisk p p'
       \<and> (distinct (executedTpLevels p) \<longrightarrow> distinct (executedTpLevels p'))
       \<and> (if gone then positions b' tok = None
          else (positions b' tok = Some p' \<or> (p' = p \<and> positions b' = positions b)))"
  using assms
  by (auto simp add: takeProfitLevel_def sameRisk_def removePosition_def notify_def Let_def
           dest: executeSell_frameD split: if_splits prod.splits bool.splits)

lemma takeProfitLoop_position:
  assumes "positions b tok = Some p"
      and "positions (takeProfitLoop ex tok price profit lv p b) tok = Some q"
  shows "sameRisk p q \<and> (distinct (executedTpLevels p) \<longrightarrow> distinct (executedTpLevels q))"
  using assms
proof (induction lv arbitrary: p b)
  case Nil
  then show ?case by (simp add: sameRisk_refl)
next
  case (Cons a lv)
  obtain i level where a: "a = (i, level)" by (cases a)
  obtain gone p' b' where s: "takeProfitLevel ex tok price profit i level p b = (gone, p', b')"
    by (cases "takeProfitLevel ex tok price profit i level p b")
  from takeProfitLevel_cases[OF s] have sr: "sameRisk p p'"
    and d: "distinct (executedTpLevels p) \<longrightarrow> distinct (executedTpLevels p')"
    and c: "if gone then positions b' tok = None
            else (positions b' tok = Some p' \<or> (p' = p \<and> positions b' = positions b))"
    by auto
  show ?case
  proof (cases gone)
    case True
    with Cons.prems a s c show ?thesis by simp
  next
    case False
    with c Cons.prems(1) have "positions b' tok = Some p'" by auto
    moreover from False Cons.prems(2) a s
    have "positions (takeProfitLoop ex tok price profit lv p' b') tok = Some q" by simp
    ultimately have "sameRisk p' q
        \<and> (distinct (executedTpLevels p') \<longrightarrow> distinct (executedTpLevels q))"
      by (rule Cons.IH)
    with sr d show ?thesis by (auto intro: sameRisk_trans)
  qed
qed

lemma checkTakeProfitGrid_position:
  assumes "positions b tok = Some p"
      and "positions (checkTakeProfitGrid cfg ex tok price profit b) tok = Some q"
  shows "sameRisk p q \<and> (distinct (executedTpLevels p) \<longrightarrow> distinct (executedTpLevels q))"
  using assms takeProfitLoop_position[of b tok p ex price profit _ q]
  by (auto simp add: checkTakeProfitGrid_def Let_def sameRisk_refl split: if_splits)

lemma riskSteps_levels: "executedTpLevels (riskSteps cfg price p) = executedTpLevels p"
  by (simp add: riskSteps_def Let_def)

text \<open>A tick that leaves the position in the store: the record is \<open>riskSteps\<close> of the
  old one, up to what the take-profit grid wrote.\<close>

lemma tick_position:
  assumes "positions b tok = Some p"
      and "positions (updatePosition cfg ex tok price b) tok = Some q"
  shows "sameRisk (riskSteps cfg price p) q
       \<and> (distinct (executedTpLevels p) \<longrightarrow> distinct (executedTpLevels q))"
proof -
  let ?profit = "profitOf p price"
  let ?b0 = "raiseHighest tok price b"
  obtain gone b1 where sl: "checkStopLoss ex tok price ?profit ?b0 = (gone, b1)"
    by (cases "checkStopLoss ex tok price ?profit ?b0")
  have pos1: "positions b1 tok = (if gone then None else positions ?b0 tok)"
    using checkStopLoss_position[of ex tok price ?profit ?b0] sl by simp
  have upd: "updatePosition cfg ex tok price b =
               (if gone then b1 else afterStopLoss cfg ex tok price ?profit b1)"
    using assms(1) sl by (simp add: updatePosition_def Let_def)
  show ?thesis
  proof (cases gone)
    case True
    with upd pos1 assms(2) show ?thesis by simp
  next
    case False
    let ?b4 = "updateTrailingStop cfg tok
          (checkTrailingStopActivation cfg tok ?profit
             (checkBreakevenMove cfg tok ?profit b1))"
    from False pos1 assms(1)
    have "positions ?b4 tok = Some (riskSteps cfg price p)"
      by (simp add: updateTrailingStop_position checkTrailingStopActivation_position
                    checkBreakevenMove_position raiseHighest_position riskSteps_def Let_def)
    moreover from False upd assms(2)
    have "positions (checkTakeProfitGrid cfg ex tok price ?profit ?b4) tok = Some q"
      by (simp add: afterStopLoss_def)
    ultimately show ?thesis
      using checkTakeProfitGrid_position[of ?b4 tok "riskSteps cfg price p" cfg ex price ?profit q]
      by (simp add: riskSteps_levels)
  qed
qed

lemma runTicks_absent: "positions b tok = None \<Longrightarrow> runTicks cfg ex tok ps b = b"
  by (induction ps) (simp_all add: updatePosition_def)

lemma runTicks_append:
  "runTicks cfg ex tok (xs @ ys) b = runTicks cfg ex tok ys (runTicks cfg ex tok xs b)"
  by (induction xs arbitrary: b) simp_all


subsection \<open>The stop loss over a tick\<close>

lemma riskSteps_stop:
  assumes "trailing_distance_percent (trailing_stop (risk_management (advanced_trading cfg))) \<le> 100"
      and "stopLossOrigin cfg p"
  shows "stopLossOrigin cfg (riskSteps cfg price p)
         \<and> entryPrice (riskSteps cfg price p) = entryPrice p
         \<and> (initialStopLoss cfg p < currentStopLoss p \<longrightarrow>
              currentStopLoss p \<le> currentStopLoss (riskSteps cfg price p))"
proof -
  let ?f = "1 - trailing_distance_percent
                  (trailing_stop (risk_management (advanced_trading cfg))) / 100"
  have f: "0 \<le> ?f" using assms(1) by simp
  have mono: "\<And>h h'. h \<le> h' \<Longrightarrow> h * ?f \<le> h' * ?f"
    using f by (simp add: mult_right_mono)
  have m1: "highestPrice p < price \<Longrightarrow> highestPrice p * ?f \<le> price * ?f"
    using mono[of "highestPrice p" price] by simp
  show ?thesis
    using assms(2) m1
    by (auto simp add: riskSteps_def stopLossOrigin_def initialStopLoss_def Let_def)
qed

lemma sameRisk_stop:
  "sameRisk p q \<Longrightarrow>
     stopLossOrigin cfg q = stopLossOrigin cfg p \<and> entryPrice q = entryPrice p
     \<and> currentStopLoss q = currentStopLoss p \<and> initialStopLoss cfg q = initialStopLoss cfg p"
  unfolding sameRisk_def stopLossOrigin_def initialStopLoss_def
  by (cases p, cases q) auto

lemma tick_stop:
  assumes "trailing_distance_percent (trailing_stop (risk_management (advanced_trading cfg))) \<le> 100"
      and "positions b tok = Some p" and "stopLossOrigin cfg p"
      and "positions (updatePosition cfg ex tok price b) tok = Some q"
  shows "stopLossOrigin cfg q \<and> entryPrice q = entryPrice p
         \<and> (initialStopLoss cfg p < currentStopLoss p \<longrightarrow> currentStopLoss p \<le> currentStopLoss q)"
proof -
  from tick_position[OF assms(2,4)] have "sameRisk (riskSteps cfg price p) q" by simp
  from sameRisk_stop[OF this, of cfg] riskSteps_stop[OF assms(1,3), of price]
  show ?thesis by simp
qed

lemma runTicks_stop:
  assumes "trailing_distance_percent (trailing_stop (risk_management (advanced_trading cfg))) \<le> 100"
  shows "positions b tok = Some p \<Longrightarrow> stopLossOrigin cfg p \<Longrightarrow>
         positions (runTicks cfg ex tok ps b) tok = Some q \<Longrightarrow>
         stopLossOrigin cfg q \<and> entryPrice q = entryPrice p
         \<and> (initialStopLoss cfg p < currentStopLoss p \<longrightarrow> currentStopLoss p \<le> currentStopLoss q)"
proof (induction ps arbitrary: b p)
  case Nil
  then show ?case by simp
next
  case (Cons price ps)
  let ?b' = "updatePosition cfg ex tok price b"
  show ?case
  proof (cases "positions ?b' tok")
    case None
    then have "runTicks cfg ex tok ps ?b' = ?b'" by (rule runTicks_absent)
    with None Cons.prems(3) show ?thesis by simp
  next
    case (Some r)
    from tick_stop[OF assms Cons.prems(1,2) Some]
    have r: "stopLossOrigin cfg r" "entryPrice r = entryPrice p"
      "initialStopLoss cfg p < currentStopLoss p \<longrightarrow> currentStopLoss p \<le> currentStopLoss r"
      by auto
    from Cons.prems(3) have "positions (runTicks cfg ex tok ps ?b') tok = Some q" by simp
    from Cons.IH[OF Some r(1) this]
    have q: "stopLossOrigin cfg q" "entryPrice q = entryPrice r"
      "initialStopLoss cfg r < currentStopLoss r \<longrightarrow> currentStopLoss r \<le> currentStopLoss q"
      by auto
    have "initialStopLoss cfg r = initialStopLoss cfg p"
      using r(2) by (simp add: initialStopLoss_def)
    with r q show ?thesis by auto
  qed
qed

lemma addPosition_origin:
  "positions (addPosition cfg now tok entry amount b) tok = Some p \<Longrightarrow>
     stopLossOrigin cfg p \<and> entryPrice p = entry"
  by (auto simp add: addPosition_def stopLossOrigin_def initialStopLoss_def)

text \<open>
  With a trailing distance of at most 100 percent the trailing update of a tick makes up
  for what the breakeven move of the same tick may take: once the stop stands above its
  initial value after a tick, it is at least as high after every later tick.
\<close>

lemma stop_loss_kept_after_ticks:
  assumes "trailing_distance_percent (trailing_stop (risk_management (advanced_trading cfg))) \<le> 100"
      and "positions (runTicks cfg ex tok earlier (addPosition cfg now tok entry amount b)) tok = Some p"
      and "entry * (1 - initial_stop_loss_percent (risk_management (advanced_trading cfg)) / 100)
             < currentStopLoss p"
      and "positions (runTicks cfg ex tok (earlier @ later) (addPosition cfg now tok entry amount b)) tok
             = Some q"
  shows "currentStopLoss p \<le> currentStopLoss q"
proof -
  let ?b0 = "addPosition cfg now tok entry amount b"
  obtain p0 where p0: "positions ?b0 tok = Some p0" by (simp add: addPosition_def)
  from addPosition_origin[OF p0]
  have o0: "stopLossOrigin cfg p0" and e0: "entryPrice p0 = entry" by auto
  from runTicks_stop[OF assms(1) p0 o0 assms(2)]
  have op: "stopLossOrigin cfg p" and ep: "entryPrice p = entry" using e0 by auto
  from assms(4)
  have "positions (runTicks cfg ex tok later (runTicks cfg ex tok earlier ?b0)) tok = Some q"
    by (simp add: runTicks_append)
  from runTicks_stop[OF assms(1) assms(2) op this] assms(3) ep
  show ?thesis by (simp add: initialStopLoss_def)
qed

subsection \<open>The take-profit grid over a tick\<close>




lemma soldLevels_append [simp]: "soldLevels tok (xs @ ys) = soldLevels tok xs @ soldLevels tok ys"
  by (simp add: soldLevels_def)

lemma failedLevels_append [simp]: "failedLevels tok (xs @ ys) = failedLevels tok xs @ failedLevels tok ys"
  by (simp add: failedLevels_def)

lemma soldLevels_Nil [simp]: "soldLevels tok [] = []"
  by (simp add: soldLevels_def)

lemma failedLevels_Nil [simp]: "failedLevels tok [] = []"
  by (simp add: failedLevels_def)













































text \<open>The definitions a concrete tick unfolds to.\<close>

lemmas tick_defs =
  updatePosition_def raiseHighest_def checkStopLoss_def afterStopLoss_def
  checkBreakevenMove_def checkTrailingStopActivation_def updateTrailingStop_def
  checkTakeProfitGrid_def takeProfitLevel_def executeSell_def getWalletHoldings_def
  sellToken_def notify_def addPosition_def removePosition_def initialBot_def opened_def
  defaultConfig_def riskConfig_def sampleToken_def sampleHolding_def sampleAt_def profitOf_def
  Let_def enumerate_eq_zip upt_rec

section \<open>Claims on the position manager\<close>


text \<open>
  Claim C1, as amended. On a tick whose price is at or below \<open>currentStopLoss\<close>, the sale
  of the whole remaining stake is attempted before anything else. When that sale succeeds,
  the position is removed and nothing else happens in the tick: the only order posted and
  the only notification sent are the stop-loss sale's, so there is no breakeven move, no
  trailing activation or update and no take-profit sale. When the sale fails, the position
  stays open and the later steps of the tick run on it.
\<close>

theorem stop_loss_short_circuits:
  assumes "positions b tok = Some p" and "price \<le> currentStopLoss p"
  shows "(if fst (executeSell ex tok (100 - totalSold p) b)
          then positions (updatePosition cfg ex tok price b) = (positions b)(tok := None)
             \<and> outbox (updatePosition cfg ex tok price b) =
                 outbox (snd (executeSell ex tok (100 - totalSold p) b))
                 @ [TokenSold (if isTrailingActive p then TrailingStopLoss else StopLoss)
                      (profitOf p price) (remainingAmount p * (price / entryPrice p - 1)) tok price]
             \<and> requests (updatePosition cfg ex tok price b) =
                 requests (snd (executeSell ex tok (100 - totalSold p) b))
          else updatePosition cfg ex tok price b =
                 afterStopLoss cfg ex tok price (profitOf p price)
                   (snd (executeSell ex tok (100 - totalSold p) (raiseHighest tok price b))))"
proof -
  let ?b0 = "raiseHighest tok price b"
  let ?p0 = "if price > highestPrice p then p\<lparr>highestPrice := price\<rparr> else p"
  have p0: "positions ?b0 tok = Some ?p0"
    using assms(1) by (simp add: raiseHighest_position)
  have m0: "(positions ?b0)(tok := None) = (positions b)(tok := None)"
    using assms(1) by (auto simp add: raiseHighest_def)
  obtain ok b1 where s: "executeSell ex tok (100 - totalSold p) b = (ok, b1)"
    by (cases "executeSell ex tok (100 - totalSold p) b")
  have s0: "executeSell ex tok (100 - totalSold p) ?b0 = (ok, b1\<lparr>positions := positions ?b0\<rparr>)"
    using s by (simp add: executeSell_raise)
  show ?thesis
    using assms p0 s s0 m0
    by (cases ok)
       (auto simp add: updatePosition_def checkStopLoss_def removePosition_def notify_def Let_def)
qed

text \<open>
  The sample position, stop at 0.40, on a tick at 0.30 with a service that fills the order:
  one sale of 100 percent, one notification, and the position is gone.
\<close>

theorem stop_loss_short_circuits_witness:
  "positions (opened defaultConfig) sampleToken = Some (sampleAt (2 / 5) False False 1 [] 0)
   \<and> (3 / 10 :: real) \<le> currentStopLoss (sampleAt (2 / 5) False False 1 [] 0)
   \<and> fst (executeSell liveExchange sampleToken (100 - totalSold (sampleAt (2 / 5) False False 1 [] 0))
            (opened defaultConfig))
   \<and> positions (updatePosition defaultConfig liveExchange sampleToken (3 / 10) (opened defaultConfig))
        sampleToken = None
   \<and> outbox (updatePosition defaultConfig liveExchange sampleToken (3 / 10) (opened defaultConfig))
       = [SellPosted 7 100, TokenSold StopLoss (- 70) (- (7 / 10)) sampleToken (3 / 10)]"
proof -
  have h1: "positions (opened defaultConfig) sampleToken = Some (sampleAt (2 / 5) False False 1 [] 0)"
    by (simp add: tick_defs)
  have h2: "(3 / 10 :: real) \<le> currentStopLoss (sampleAt (2 / 5) False False 1 [] 0)"
    by (simp add: sampleAt_def)
  have h3: "fst (executeSell liveExchange sampleToken (100 - totalSold (sampleAt (2 / 5) False False 1 [] 0))
            (opened defaultConfig))"
    by (simp add: tick_defs liveExchange_def)
  have out: "outbox (snd (executeSell liveExchange sampleToken
                (100 - totalSold (sampleAt (2 / 5) False False 1 [] 0)) (opened defaultConfig)))
             = [SellPosted 7 100]"
    by (simp add: tick_defs liveExchange_def)
  from stop_loss_short_circuits[OF h1 h2, of liveExchange defaultConfig] h3 out
  have "positions (updatePosition defaultConfig liveExchange sampleToken (3 / 10) (opened defaultConfig))
        sampleToken = None"
    and "outbox (updatePosition defaultConfig liveExchange sampleToken (3 / 10) (opened defaultConfig))
       = [SellPosted 7 100, TokenSold StopLoss (- 70) (- (7 / 10)) sampleToken (3 / 10)]"
    by (simp_all add: sampleAt_def profitOf_def)
  with h1 h2 h3 show ?thesis by (intro conjI)
qed

text \<open>
  Claim C1 as stated fails when the stop-loss sale is rejected. After a tick at 2.00 the
  sample position has its stop at 1.50. On the next tick, at 1.40, the stop-loss sale of
  100 percent is posted and rejected; the same tick then goes on to the take-profit grid
  and sells 15 percent at the first level.
\<close>

theorem stop_loss_failed_sale_counterexample:
  "positions (runTicks defaultConfig lateExchange sampleToken [2] (opened defaultConfig)) sampleToken
     = Some (sampleAt (3 / 2) True True 2 [] 0)
   \<and> (14 / 10 :: real) \<le> currentStopLoss (sampleAt (3 / 2) True True 2 [] 0)
   \<and> positions (updatePosition defaultConfig lateExchange sampleToken (14 / 10)
        (runTicks defaultConfig lateExchange sampleToken [2] (opened defaultConfig))) sampleToken
     = Some (sampleAt (3 / 2) True True 2 [0] 15)
   \<and> outbox (updatePosition defaultConfig lateExchange sampleToken (14 / 10)
        (runTicks defaultConfig lateExchange sampleToken [2] (opened defaultConfig)))
     = outbox (runTicks defaultConfig lateExchange sampleToken [2] (opened defaultConfig))
       @ [SellPosted 7 100, SellPosted 7 15,
          TokenSold (TakeProfitLevel 1 ''Quick profit lock'') 40 (3 / 50) sampleToken (14 / 10)]"
  by code_simp

text \<open>
  Claim C2. The trailing update keeps the claim, it moves the stop up only. The breakeven
  move does not: it assigns its level whatever the stop is. With percentages above 100 the
  stop falls from one tick to the next. Entry at 1: after a tick at 1.25 trailing is
  engaged and the stop is -0.625, above the initial -2; in the tick at 1.50 the breakeven
  move sets the stop to -1, the trailing update of that tick raises it to -0.75 and no
  further, and the tick ends with a stop below the one it began with. With percentages
  below 100 the same assignment lowers the stop inside a tick: trailing engaged at 1.25
  puts the stop at 1.09375, the breakeven move of the tick at 1.50 sets it to 1.0625, and
  the trailing update of that tick raises it to 1.3125.
\<close>

theorem stop_loss_lowered_by_breakeven:
  "positions (runTicks wideTrailConfig deafExchange sampleToken [5 / 4] (opened wideTrailConfig))
      sampleToken = Some (sampleAt (- (5 / 8)) False True (5 / 4) [] 0)
   \<and> 1 * (1 - initial_stop_loss_percent (risk_management (advanced_trading wideTrailConfig)) / 100)
       < currentStopLoss (sampleAt (- (5 / 8)) False True (5 / 4) [] 0)
   \<and> positions (checkBreakevenMove wideTrailConfig sampleToken 50
        (snd (checkStopLoss deafExchange sampleToken (3 / 2) 50
           (raiseHighest sampleToken (3 / 2)
              (runTicks wideTrailConfig deafExchange sampleToken [5 / 4] (opened wideTrailConfig))))))
      sampleToken = Some (sampleAt (- 1) True True (3 / 2) [] 0)
   \<and> positions (runTicks wideTrailConfig deafExchange sampleToken [5 / 4, 3 / 2]
        (opened wideTrailConfig)) sampleToken = Some (sampleAt (- (3 / 4)) True True (3 / 2) [] 0)
   \<and> currentStopLoss (sampleAt (- (3 / 4)) True True (3 / 2) [] 0)
       < currentStopLoss (sampleAt (- (5 / 8)) False True (5 / 4) [] 0)
   \<and> positions (runTicks earlyTrailConfig deafExchange sampleToken [5 / 4] (opened earlyTrailConfig))
      sampleToken = Some (sampleAt (35 / 32) False True (5 / 4) [] 0)
   \<and> 1 * (1 - initial_stop_loss_percent (risk_management (advanced_trading earlyTrailConfig)) / 100)
       < currentStopLoss (sampleAt (35 / 32) False True (5 / 4) [] 0)
   \<and> positions (checkBreakevenMove earlyTrailConfig sampleToken 50
        (snd (checkStopLoss deafExchange sampleToken (3 / 2) 50
           (raiseHighest sampleToken (3 / 2)
              (runTicks earlyTrailConfig deafExchange sampleToken [5 / 4] (opened earlyTrailConfig))))))
      sampleToken = Some (sampleAt (17 / 16) True True (3 / 2) [] 0)
   \<and> currentStopLoss (sampleAt (17 / 16) True True (3 / 2) [] 0)
       < currentStopLoss (sampleAt (35 / 32) False True (5 / 4) [] 0)
   \<and> positions (runTicks earlyTrailConfig deafExchange sampleToken [5 / 4, 3 / 2]
        (opened earlyTrailConfig)) sampleToken = Some (sampleAt (21 / 16) True True (3 / 2) [] 0)"
proof -
  have w1: "positions (runTicks wideTrailConfig deafExchange sampleToken [5 / 4] (opened wideTrailConfig))
      sampleToken = Some (sampleAt (- (5 / 8)) False True (5 / 4) [] 0)"
    by code_simp
  have w2: "1 * (1 - initial_stop_loss_percent (risk_management (advanced_trading wideTrailConfig)) / 100)
       < currentStopLoss (sampleAt (- (5 / 8)) False True (5 / 4) [] 0)"
    by (simp add: wideTrailConfig_def riskConfig_def sampleAt_def)
  have w3: "positions (checkBreakevenMove wideTrailConfig sampleToken 50
        (snd (checkStopLoss deafExchange sampleToken (3 / 2) 50
           (raiseHighest sampleToken (3 / 2)
              (runTicks wideTrailConfig deafExchange sampleToken [5 / 4] (opened wideTrailConfig))))))
      sampleToken = Some (sampleAt (- 1) True True (3 / 2) [] 0)"
    by code_simp
  have w4: "positions (runTicks wideTrailConfig deafExchange sampleToken [5 / 4, 3 / 2]
        (opened wideTrailConfig)) sampleToken = Some (sampleAt (- (3 / 4)) True True (3 / 2) [] 0)"
    by code_simp
  have w5: "currentStopLoss (sampleAt (- (3 / 4)) True True (3 / 2) [] 0)
       < currentStopLoss (sampleAt (- (5 / 8)) False True (5 / 4) [] 0)"
    by (simp add: sampleAt_def)
  have e1: "positions (runTicks earlyTrailConfig deafExchange sampleToken [5 / 4] (opened earlyTrailConfig))
      sampleToken = Some (sampleAt (35 / 32) False True (5 / 4) [] 0)"
    by code_simp
  have e2: "1 * (1 - initial_stop_loss_percent (risk_management (advanced_trading earlyTrailConfig)) / 100)
       < currentStopLoss (sampleAt (35 / 32) False True (5 / 4) [] 0)"
    by (simp add: earlyTrailConfig_def riskConfig_def sampleAt_def)
  have e3: "positions (checkBreakevenMove earlyTrailConfig sampleToken 50
        (snd (checkStopLoss deafExchange sampleToken (3 / 2) 50
           (raiseHighest sampleToken (3 / 2)
              (runTicks earlyTrailConfig deafExchange sampleToken [5 / 4] (opened earlyTrailConfig))))))
      sampleToken = Some (sampleAt (17 / 16) True True (3 / 2) [] 0)"
    by code_simp
  have e4: "currentStopLoss (sampleAt (17 / 16) True True (3 / 2) [] 0)
       < currentStopLoss (sampleAt (35 / 32) False True (5 / 4) [] 0)"
    by (simp add: sampleAt_def)
  have e5: "positions (runTicks earlyTrailConfig deafExchange sampleToken [5 / 4, 3 / 2]
        (opened earlyTrailConfig)) sampleToken = Some (sampleAt (21 / 16) True True (3 / 2) [] 0)"
    by code_simp
  from w1 w2 w3 w4 w5 e1 e2 e3 e4 e5 show ?thesis by (intro conjI)
qed





text \<open>
  Claim C10. \<^verbatim>\<open>addPosition\<close> for a token that is already tracked replaces its record by a
  fresh one, whatever the old record was, adds no key to the store and sends nothing.
\<close>

theorem addPosition_replaces:
  assumes "positions b tok = Some old"
  shows "positions (addPosition cfg now tok price amount b) =
           (positions b)(tok \<mapsto>
              \<lparr> tokenAddress = tok, entryPrice = price, entryAmount = amount,
                remainingAmount = amount, entryTime = now,
                currentStopLoss =
                  price * (1 - initial_stop_loss_percent (risk_management (advanced_trading cfg)) / 100),
                isBreakevenMoved = False, isTrailingActive = False, highestPrice = price,
                executedTpLevels = [], totalSold = 0 \<rparr>)
       \<and> dom (positions (addPosition cfg now tok price amount b)) = dom (positions b)
       \<and> outbox (addPosition cfg now tok price amount b) = outbox b"
  using assms by (auto simp add: addPosition_def)

text \<open>
  The sample position after a breakeven move and a take-profit sale, opened again: the
  stop is back at 0.40, the flags are off, no level is executed, nothing is sold.
\<close>

theorem addPosition_replaces_witness:
  "positions (runTicks defaultConfig lateExchange sampleToken
       [13 / 10, 11 / 10, 13 / 10, 13 / 10, 13 / 10]
       (opened defaultConfig)) sampleToken
     = Some (sampleAt (27 / 25) True False (13 / 10) [0] 15)
   \<and> positions (addPosition defaultConfig 0 sampleToken 1 1
        (runTicks defaultConfig lateExchange sampleToken
           [13 / 10, 11 / 10, 13 / 10, 13 / 10, 13 / 10] (opened defaultConfig))) sampleToken
     = Some (sampleAt (2 / 5) False False 1 [] 0)"
proof -
  have h: "positions (runTicks defaultConfig lateExchange sampleToken
       [13 / 10, 11 / 10, 13 / 10, 13 / 10, 13 / 10]
       (opened defaultConfig)) sampleToken
     = Some (sampleAt (27 / 25) True False (13 / 10) [0] 15)"
    by code_simp
  from addPosition_replaces[OF h, of defaultConfig 0 1 1]
  have "positions (addPosition defaultConfig 0 sampleToken 1 1
        (runTicks defaultConfig lateExchange sampleToken
           [13 / 10, 11 / 10, 13 / 10, 13 / 10, 13 / 10] (opened defaultConfig))) sampleToken
     = Some (sampleAt (2 / 5) False False 1 [] 0)"
    by (simp add: sampleAt_def defaultConfig_def)
  with h show ?thesis by (intro conjI)
qed

section \<open>Claims on the balance manager\<close>

lemma fresh_lamports: "lamportsBalance (freshBalance cfg lamports) = lamports"
  by (simp add: freshBalance_def Let_def)

lemma fresh_zero_available:
  "availableForTrading (freshBalance cfg lamports) = 0 \<Longrightarrow>
     calculatedBuyAmount (freshBalance cfg lamports) \<le> 0"
  by (simp add: freshBalance_def calculateBuyAmount_def Let_def)

lemma getBalance_sound:
  assumes "cacheSound cfg b" and "getBalance cfg force now rpc b = (Some bal, b')"
  shows "bal = freshBalance cfg (lamportsBalance bal) \<and> cacheSound cfg b'"
  using assms
  by (auto simp add: getBalance_def cacheSound_def fresh_lamports split: if_splits option.splits)


lemma freshBalance_policy:
  "solBalance (freshBalance cfg lamports) = real lamports / 1000000000
   \<and> reservedAmount (freshBalance cfg lamports) = orDefault (reserve_sol (token_buy cfg)) (15 / 100)
   \<and> availableForTrading (freshBalance cfg lamports) =
       max 0 (solBalance (freshBalance cfg lamports) - reservedAmount (freshBalance cfg lamports))
   \<and> calculatedBuyAmount (freshBalance cfg lamports) =
       (if buy_mode (token_buy cfg) = ''percentage''
        then min (clamp (availableForTrading (freshBalance cfg lamports)
                           * balance_percentage (token_buy cfg) / 100)
                        (orDefault (min_sol_amount (token_buy cfg)) (1 / 100))
                        (orDefault (max_sol_amount (token_buy cfg)) 1))
                 (availableForTrading (freshBalance cfg lamports))
        else min (orDefault (sol_amount (token_buy cfg)) (1 / 10))
                 (availableForTrading (freshBalance cfg lamports)))
   \<and> calculatedBuyAmount (freshBalance cfg lamports) \<le> availableForTrading (freshBalance cfg lamports)"
  by (simp add: freshBalance_def calculateBuyAmount_def clamp_def Let_def LAMPORTS_PER_SOL_def)

lemma getBalance_source:
  assumes "getBalance cfg force now rpc b = (Some bal, b')"
  shows "if force \<or> balanceCache b = None \<or> CACHE_DURATION \<le> now - cacheTimestamp b
         then rpc = Some (lamportsBalance bal) \<and> balanceCache b' = Some bal \<and> cacheTimestamp b' = now
         else balanceCache b = Some bal \<and> b' = b"
  using assms
  by (auto simp add: getBalance_def fresh_lamports split: if_splits option.splits)

text \<open>
  Claim C6. Every snapshot that \<^verbatim>\<open>getBalance\<close> returns, fetched or cached, has
  \<open>availableForTrading = max 0 (solBalance - reservedAmount)\<close>; in percentage mode its buy
  amount is the percentage of \<open>availableForTrading\<close> clamped between the minimum and the
  maximum amount and then capped by \<open>availableForTrading\<close>; in any other mode it is the
  smaller of the fixed amount and \<open>availableForTrading\<close>. The reserve, the fixed amount and
  the two bounds are the configured values, or the source's defaults where the configured
  value is zero. A forced read, or a read with no cache younger than two seconds, takes
  the snapshot from the lamports the RPC node reports.
\<close>

theorem buy_amount_policy:
  assumes "cacheSound cfg b" and "getBalance cfg force now rpc b = (Some bal, b')"
  shows "solBalance bal = real (lamportsBalance bal) / 1000000000
       \<and> reservedAmount bal = orDefault (reserve_sol (token_buy cfg)) (15 / 100)
       \<and> availableForTrading bal = max 0 (solBalance bal - reservedAmount bal)
       \<and> calculatedBuyAmount bal =
           (if buy_mode (token_buy cfg) = ''percentage''
            then min (clamp (availableForTrading bal * balance_percentage (token_buy cfg) / 100)
                            (orDefault (min_sol_amount (token_buy cfg)) (1 / 100))
                            (orDefault (max_sol_amount (token_buy cfg)) 1))
                     (availableForTrading bal)
            else min (orDefault (sol_amount (token_buy cfg)) (1 / 10)) (availableForTrading bal))
       \<and> calculatedBuyAmount bal \<le> availableForTrading bal
       \<and> (if force \<or> balanceCache b = None \<or> CACHE_DURATION \<le> now - cacheTimestamp b
          then rpc = Some (lamportsBalance bal) else balanceCache b = Some bal)
       \<and> cacheSound cfg b'"
proof -
  from getBalance_sound[OF assms]
  have f: "bal = freshBalance cfg (lamportsBalance bal)" and s: "cacheSound cfg b'" by simp_all
  have p: "solBalance bal = real (lamportsBalance bal) / 1000000000
       \<and> reservedAmount bal = orDefault (reserve_sol (token_buy cfg)) (15 / 100)
       \<and> availableForTrading bal = max 0 (solBalance bal - reservedAmount bal)
       \<and> calculatedBuyAmount bal =
           (if buy_mode (token_buy cfg) = ''percentage''
            then min (clamp (availableForTrading bal * balance_percentage (token_buy cfg) / 100)
                            (orDefault (min_sol_amount (token_buy cfg)) (1 / 100))
                            (orDefault (max_sol_amount (token_buy cfg)) 1))
                     (availableForTrading bal)
            else min (orDefault (sol_amount (token_buy cfg)) (1 / 10)) (availableForTrading bal))
       \<and> calculatedBuyAmount bal \<le> availableForTrading bal"
    using freshBalance_policy[of cfg "lamportsBalance bal"] unfolding f[symmetric] .
  from getBalance_source[OF assms(2)]
  have c: "if force \<or> balanceCache b = None \<or> CACHE_DURATION \<le> now - cacheTimestamp b
          then rpc = Some (lamportsBalance bal) else balanceCache b = Some bal"
    by (simp split: if_splits)
  from p c s show ?thesis by blast
qed

text \<open>
  With 1.2 SOL and the repository's configuration: 1 SOL to trade with, 8 percent of it is
  bought; a second read within the cache's lifetime returns the same snapshot although the
  RPC node is down. In fixed mode with 0.22 SOL the 0.02 SOL above the reserve are bought.
\<close>

theorem buy_amount_policy_witness:
  "cacheSound defaultConfig initialBot
   \<and> getBalance defaultConfig False 0 (Some 1200000000) initialBot
       = (Some (freshBalance defaultConfig 1200000000), cachedBot defaultConfig 1200000000)
   \<and> availableForTrading (freshBalance defaultConfig 1200000000) = 1
   \<and> calculatedBuyAmount (freshBalance defaultConfig 1200000000) = 8 / 100
   \<and> cacheSound defaultConfig (cachedBot defaultConfig 1200000000)
   \<and> getBalance defaultConfig False 1500 None (cachedBot defaultConfig 1200000000)
       = (Some (freshBalance defaultConfig 1200000000), cachedBot defaultConfig 1200000000)
   \<and> cacheSound fixedConfig initialBot
   \<and> getBalance fixedConfig True 0 (Some 220000000) initialBot
       = (Some (freshBalance fixedConfig 220000000), cachedBot fixedConfig 220000000)
   \<and> availableForTrading (freshBalance fixedConfig 220000000) = 2 / 100
   \<and> calculatedBuyAmount (freshBalance fixedConfig 220000000) = 2 / 100"
proof -
  have s: "cacheSound cfg initialBot" for cfg
    by (simp add: cacheSound_def initialBot_def)
  have g: "getBalance cfg force 0 (Some lamports) initialBot
       = (Some (freshBalance cfg lamports), cachedBot cfg lamports)" for cfg force lamports
    by (simp add: getBalance_def initialBot_def cachedBot_def)
  have g2: "getBalance defaultConfig False 1500 None (cachedBot defaultConfig 1200000000)
       = (Some (freshBalance defaultConfig 1200000000), cachedBot defaultConfig 1200000000)"
    by (simp add: getBalance_def cachedBot_def CACHE_DURATION_def)
  note t = buy_amount_policy[OF s[of defaultConfig] g[of defaultConfig False 1200000000]]
  have l: "lamportsBalance (freshBalance cfg lamports) = lamports" for cfg lamports
    by (rule fresh_lamports)
  have a: "availableForTrading (freshBalance defaultConfig 1200000000) = 1"
    using t by (simp add: l defaultConfig_def orDefault_def)
  have b: "calculatedBuyAmount (freshBalance defaultConfig 1200000000) = 8 / 100"
    using t a by (simp add: l defaultConfig_def orDefault_def clamp_def)
  from t have s1: "cacheSound defaultConfig (cachedBot defaultConfig 1200000000)"
    by (rule conjunct2[THEN conjunct2, THEN conjunct2, THEN conjunct2, THEN conjunct2, THEN conjunct2])
  note u = buy_amount_policy[OF s[of fixedConfig] g[of fixedConfig True 220000000]]
  have c: "availableForTrading (freshBalance fixedConfig 220000000) = 2 / 100"
    using u by (simp add: l fixedConfig_def defaultConfig_def orDefault_def)
  have d: "calculatedBuyAmount (freshBalance fixedConfig 220000000) = 2 / 100"
    using u c by (simp add: l fixedConfig_def defaultConfig_def orDefault_def)
  from s[of defaultConfig] g[of defaultConfig False 1200000000] a b s1 g2
       s[of fixedConfig] g[of fixedConfig True 220000000] c d
  show ?thesis by (intro conjI)
qed

text \<open>
  Claim C7. When the balance read succeeds, \<^verbatim>\<open>canAffordTrade\<close> allows the trade exactly
  when the balance is not below the reserve, the buy amount is positive and the buy amount
  is not below the minimum; each of the three refusals has its own reason, the three texts
  are different, and an allowed trade carries no reason. A snapshot with nothing available
  for trading is always refused. The snapshot may come from the cache: the cache only
  ever holds snapshots that a fetch computed.
\<close>

theorem canAffordTrade_reasons:
  assumes "cacheSound cfg b" and "getBalance cfg False now rpc b = (Some bal, b')"
  shows "canTrade (fst (canAffordTrade cfg fmt now rpc b)) =
           (\<not> solBalance bal < reservedAmount bal \<and> \<not> calculatedBuyAmount bal \<le> 0
            \<and> \<not> calculatedBuyAmount bal < orDefault (min_sol_amount (token_buy cfg)) (1 / 100))
       \<and> reason (fst (canAffordTrade cfg fmt now rpc b)) =
           (if solBalance bal < reservedAmount bal
            then Some (''Insufficient balance (need '' @ fmt (reservedAmount bal) @ '' SOL reserve)'')
            else if calculatedBuyAmount bal \<le> 0 then Some ''Insufficient balance after reserve''
            else if calculatedBuyAmount bal < orDefault (min_sol_amount (token_buy cfg)) (1 / 100)
            then Some (''Amount below minimum (''
                       @ fmt (orDefault (min_sol_amount (token_buy cfg)) (1 / 100)) @ '' SOL)'')
            else None)
       \<and> distinct [''Insufficient balance (need '' @ fmt (reservedAmount bal) @ '' SOL reserve)'',
                   ''Insufficient balance after reserve'',
                   ''Amount below minimum (''
                     @ fmt (orDefault (min_sol_amount (token_buy cfg)) (1 / 100)) @ '' SOL)'']
       \<and> (if availableForTrading bal = 0
          then canTrade (fst (canAffordTrade cfg fmt now rpc b)) = False else True)"
proof -
  let ?r = "fst (canAffordTrade cfg fmt now rpc b)"
  from getBalance_sound[OF assms] have "bal = freshBalance cfg (lamportsBalance bal)" by simp
  with fresh_zero_available[of cfg "lamportsBalance bal"]
  have z: "availableForTrading bal = 0 \<Longrightarrow> calculatedBuyAmount bal \<le> 0" by simp
  have r: "?r = affordDecision cfg fmt bal"
    using assms(2) by (simp add: canAffordTrade_def)
  have r1: "canTrade ?r =
           (\<not> solBalance bal < reservedAmount bal \<and> \<not> calculatedBuyAmount bal \<le> 0
            \<and> \<not> calculatedBuyAmount bal < orDefault (min_sol_amount (token_buy cfg)) (1 / 100))"
    unfolding r by (simp add: affordDecision_def Let_def)
  have r2: "reason ?r =
           (if solBalance bal < reservedAmount bal
            then Some (''Insufficient balance (need '' @ fmt (reservedAmount bal) @ '' SOL reserve)'')
            else if calculatedBuyAmount bal \<le> 0 then Some ''Insufficient balance after reserve''
            else if calculatedBuyAmount bal < orDefault (min_sol_amount (token_buy cfg)) (1 / 100)
            then Some (''Amount below minimum (''
                       @ fmt (orDefault (min_sol_amount (token_buy cfg)) (1 / 100)) @ '' SOL)'')
            else None)"
    unfolding r by (simp add: affordDecision_def Let_def)
  have r3: "distinct [''Insufficient balance (need '' @ fmt (reservedAmount bal) @ '' SOL reserve)'',
                   ''Insufficient balance after reserve'',
                   ''Amount below minimum (''
                     @ fmt (orDefault (min_sol_amount (token_buy cfg)) (1 / 100)) @ '' SOL)'']"
    by simp
  have r4: "(if availableForTrading bal = 0 then canTrade ?r = False else True)"
    using z r1 by simp
  from r1 r2 r3 r4 show ?thesis by (intro conjI)
qed

lemmas fresh_defs = freshBalance_def calculateBuyAmount_def defaultConfig_def orDefault_def
  LAMPORTS_PER_SOL_def Let_def

text \<open>
  The repository's configuration, reserve 0.2 SOL: a wallet of 0.2 SOL has nothing to
  trade with and is refused; 0.1 SOL is below the reserve; 0.203 SOL gives an amount below
  the minimum; 1.2 SOL may trade.
\<close>

theorem canAffordTrade_reasons_witness:
  "cacheSound defaultConfig initialBot
   \<and> getBalance defaultConfig False 0 (Some 200000000) initialBot
       = (Some (freshBalance defaultConfig 200000000),
          initialBot\<lparr>balanceCache := Some (freshBalance defaultConfig 200000000), cacheTimestamp := 0\<rparr>)
   \<and> availableForTrading (freshBalance defaultConfig 200000000) = 0
   \<and> canTrade (fst (canAffordTrade defaultConfig hashMark 0 (Some 200000000) initialBot)) = False
   \<and> reason (fst (canAffordTrade defaultConfig hashMark 0 (Some 200000000) initialBot))
       = Some ''Insufficient balance after reserve''
   \<and> reason (fst (canAffordTrade defaultConfig hashMark 0 (Some 100000000) initialBot))
       = Some ''Insufficient balance (need # SOL reserve)''
   \<and> reason (fst (canAffordTrade defaultConfig hashMark 0 (Some 203000000) initialBot))
       = Some ''Amount below minimum (# SOL)''
   \<and> canTrade (fst (canAffordTrade defaultConfig hashMark 0 (Some 1200000000) initialBot)) = True"
proof -
  have s: "cacheSound defaultConfig initialBot"
    by (simp add: cacheSound_def initialBot_def)
  have g: "getBalance defaultConfig False 0 (Some lamports) initialBot
       = (Some (freshBalance defaultConfig lamports),
          initialBot\<lparr>balanceCache := Some (freshBalance defaultConfig lamports), cacheTimestamp := 0\<rparr>)"
    for lamports
    by (simp add: getBalance_def initialBot_def)
  have m: "orDefault (min_sol_amount (token_buy defaultConfig)) (1 / 100) = 5 / 1000"
    by (simp add: defaultConfig_def orDefault_def)
  have f100: "solBalance (freshBalance defaultConfig 100000000) = 1 / 10"
             "reservedAmount (freshBalance defaultConfig 100000000) = 2 / 10"
    by (simp_all add: fresh_defs)
  have f200: "solBalance (freshBalance defaultConfig 200000000) = 2 / 10"
             "reservedAmount (freshBalance defaultConfig 200000000) = 2 / 10"
             "availableForTrading (freshBalance defaultConfig 200000000) = 0"
             "calculatedBuyAmount (freshBalance defaultConfig 200000000) = 0"
    by (simp_all add: fresh_defs)
  have f203: "solBalance (freshBalance defaultConfig 203000000) = 203 / 1000"
             "reservedAmount (freshBalance defaultConfig 203000000) = 2 / 10"
             "calculatedBuyAmount (freshBalance defaultConfig 203000000) = 3 / 1000"
    by (simp_all add: fresh_defs)
  have f1200: "solBalance (freshBalance defaultConfig 1200000000) = 12 / 10"
             "reservedAmount (freshBalance defaultConfig 1200000000) = 2 / 10"
             "calculatedBuyAmount (freshBalance defaultConfig 1200000000) = 8 / 100"
    by (simp_all add: fresh_defs)
  note t = canAffordTrade_reasons[OF s g, of hashMark]
  from t[of 200000000]
  have "if availableForTrading (freshBalance defaultConfig 200000000) = 0
        then canTrade (fst (canAffordTrade defaultConfig hashMark 0 (Some 200000000) initialBot)) = False
        else True"
    by (rule conjunct2[THEN conjunct2, THEN conjunct2])
  with f200(3)
  have c1: "canTrade (fst (canAffordTrade defaultConfig hashMark 0 (Some 200000000) initialBot)) = False"
    by (simp only: simp_thms if_True)
  from t[of 200000000, THEN conjunct2, THEN conjunct1]
  have c2: "reason (fst (canAffordTrade defaultConfig hashMark 0 (Some 200000000) initialBot))
       = Some ''Insufficient balance after reserve''"
    by (simp add: f200)
  from t[of 100000000, THEN conjunct2, THEN conjunct1]
  have c3: "reason (fst (canAffordTrade defaultConfig hashMark 0 (Some 100000000) initialBot))
       = Some ''Insufficient balance (need # SOL reserve)''"
    by (simp add: f100 hashMark_def)
  from t[of 203000000, THEN conjunct2, THEN conjunct1]
  have c4: "reason (fst (canAffordTrade defaultConfig hashMark 0 (Some 203000000) initialBot))
       = Some ''Amount below minimum (# SOL)''"
    by (simp add: f203 m hashMark_def)
  from t[of 1200000000, THEN conjunct1]
  have c5: "canTrade (fst (canAffordTrade defaultConfig hashMark 0 (Some 1200000000) initialBot)) = True"
    by (simp add: f1200 m)
  from s g[of 200000000] f200(3) c1 c2 c3 c4 c5 show ?thesis by (intro conjI)
qed

section \<open>Claims on the emergency stop\<close>

lemma sellEach_frame:
  "positions (snd (sellEach ex hs b)) = positions b
   \<and> isTrading (snd (sellEach ex hs b)) = isTrading b
   \<and> tradingQueue (snd (sellEach ex hs b)) = tradingQueue b
   \<and> outbox (snd (sellEach ex hs b)) =
       outbox b @ map (\<lambda>pos. SellPosted (positionId pos) 100)
                      (filter (\<lambda>pos. positionId pos \<noteq> 0) hs)"
proof (induction hs arbitrary: b)
  case Nil
  then show ?case by simp
next
  case (Cons pos hs)
  obtain ok b1 where s: "sellToken ex (positionId pos) 100 b = (ok, b1)"
    by (cases "sellToken ex (positionId pos) 100 b")
  then have f: "positions b1 = positions b \<and> isTrading b1 = isTrading b
      \<and> tradingQueue b1 = tradingQueue b
      \<and> outbox b1 = outbox b @ (if positionId pos \<noteq> 0 then [SellPosted (positionId pos) 100] else [])"
    by (auto simp add: sellToken_def notify_def Let_def split: if_splits option.splits)
  obtain ds b2 where r: "sellEach ex hs b1 = (ds, b2)"
    by (cases "sellEach ex hs b1")
  from Cons.IH[of b1] r s f show ?case by simp
qed

lemma sellEach_frameD:
  "sellEach ex hs b = (ds, b') \<Longrightarrow>
     positions b' = positions b \<and> isTrading b' = isTrading b \<and> tradingQueue b' = tradingQueue b
     \<and> outbox b' =
         outbox b @ map (\<lambda>pos. SellPosted (positionId pos) 100)
                        (filter (\<lambda>pos. positionId pos \<noteq> 0) hs)"
  using sellEach_frame[of ex hs b] by simp

text \<open>
  Claim C9. \<^verbatim>\<open>emergencyStop\<close> clears the in-flight flag and the queue, posts a sale of
  100 percent for every holding the execution service lists, sends its notification, and
  leaves the position store as it was.
\<close>

theorem emergency_stop_keeps_positions:
  "positions (emergencyStop ex b) = positions b
   \<and> isTrading (emergencyStop ex b) = False
   \<and> tradingQueue (emergencyStop ex b) = []
   \<and> outbox (emergencyStop ex b) =
       outbox b
       @ map (\<lambda>pos. SellPosted (positionId pos) 100)
             (filter (\<lambda>pos. positionId pos \<noteq> 0)
                (case walletHoldings ex (requests b) of None \<Rightarrow> [] | Some ws \<Rightarrow> ws))
       @ [ErrorAlert EmergencyStopExecuted]"
  by (auto simp add: emergencyStop_def emergencySellAll_def getWalletHoldings_def notify_def
           dest!: sellEach_frameD split: option.split prod.split)

text \<open>
  After an emergency stop the sample position is still in the store, unchanged, and the
  next tick at 1.30 evaluates it: breakeven move and the first take-profit level.
\<close>

theorem emergency_stop_keeps_positions_witness:
  "positions (emergencyStop liveExchange
       ((opened defaultConfig)\<lparr>isTrading := True, tradingQueue := [otherToken]\<rparr>)) sampleToken
     = Some (sampleAt (2 / 5) False False 1 [] 0)
   \<and> outbox (emergencyStop liveExchange
       ((opened defaultConfig)\<lparr>isTrading := True, tradingQueue := [otherToken]\<rparr>))
     = [SellPosted 7 100, ErrorAlert EmergencyStopExecuted]
   \<and> positions (updatePosition defaultConfig liveExchange sampleToken (13 / 10)
        (emergencyStop liveExchange
          ((opened defaultConfig)\<lparr>isTrading := True, tradingQueue := [otherToken]\<rparr>))) sampleToken
     = Some (sampleAt (27 / 25) True False (13 / 10) [0] 15)"
proof -
  let ?b = "(opened defaultConfig)\<lparr>isTrading := True, tradingQueue := [otherToken]\<rparr>"
  note t = emergency_stop_keeps_positions[of liveExchange ?b]
  from t have c1: "positions (emergencyStop liveExchange ?b) sampleToken
     = Some (sampleAt (2 / 5) False False 1 [] 0)"
    by (simp add: tick_defs)
  from t have c2: "outbox (emergencyStop liveExchange ?b)
     = [SellPosted 7 100, ErrorAlert EmergencyStopExecuted]"
    by (simp add: tick_defs liveExchange_def)
  have c3: "positions (updatePosition defaultConfig liveExchange sampleToken (13 / 10)
        (emergencyStop liveExchange ?b)) sampleToken
     = Some (sampleAt (27 / 25) True False (13 / 10) [0] 15)"
    by (simp add: tick_defs liveExchange_def emergencyStop_def emergencySellAll_def)
  from c1 c2 c3 show ?thesis by (intro conjI)
qed

section \<open>Claims on failure alerts\<close>

lemma alertsOf_notify:
  "alertsOf (notify e b) = alertsOf b @ (case e of ErrorAlert a \<Rightarrow> [a] | _ \<Rightarrow> [])"
  by (simp add: alertsOf_def notify_def)

lemma alertsOf_upd [simp]:
  "alertsOf (b\<lparr>failureCount := fc\<rparr>) = alertsOf b"
  "alertsOf (b\<lparr>priceCache := pc\<rparr>) = alertsOf b"
  "alertsOf (b\<lparr>positions := ps\<rparr>) = alertsOf b"
  "alertsOf (b\<lparr>requests := n\<rparr>) = alertsOf b"
  by (simp_all add: alertsOf_def)

lemma trackFailure_effect:
  "priceCache (trackFailure tok why b) = priceCache b
   \<and> countOf (trackFailure tok why b) tok = Suc (countOf b tok)
   \<and> alertsOf (trackFailure tok why b) =
       alertsOf b @ (if countOf b tok = 2 then [PriceFeedWarning tok 3 why] else [])"
  by (auto simp add: trackFailure_def countOf_def MAX_FAILURES_BEFORE_WARNING_def Let_def
                alertsOf_def notify_def split: option.split)

lemma failed_call_step:
  assumes "failedCall b tok (now, answer)"
  shows "snd (getTokenPrice now answer tok b) = trackFailure tok (failureReason answer) b"
  using assms
  by (auto simp add: failedCall_def cacheExpired_def badAnswer_def getTokenPrice_def
        priceFromSource_def failureReason_def split: option.splits fetched.splits)

lemma failedCall_cache:
  "priceCache b' = priceCache b \<Longrightarrow> failedCall b' tok call = failedCall b tok call"
  by (simp add: failedCall_def cacheExpired_def)

lemma priceCalls_failed:
  assumes "\<forall>call \<in> set calls. failedCall b tok call"
  shows "priceCache (priceCalls tok calls b) = priceCache b
       \<and> countOf (priceCalls tok calls b) tok = countOf b tok + length calls
       \<and> alertsOf (priceCalls tok calls b) =
           alertsOf b @ (if countOf b tok < 3 \<and> 3 \<le> countOf b tok + length calls
                         then [PriceFeedWarning tok 3 (failureReason (snd (calls ! (2 - countOf b tok))))]
                         else [])"
  using assms
proof (induction calls arbitrary: b)
  case Nil
  then show ?case by simp
next
  case (Cons call calls)
  obtain now answer where c: "call = (now, answer)" by (cases call)
  let ?b1 = "trackFailure tok (failureReason answer) b"
  from Cons.prems c have f: "failedCall b tok (now, answer)" by simp
  have step: "snd (getTokenPrice now answer tok b) = ?b1" by (rule failed_call_step[OF f])
  note e = trackFailure_effect[of tok "failureReason answer" b]
  from e have pc: "priceCache ?b1 = priceCache b" by simp
  from Cons.prems have "\<forall>call \<in> set calls. failedCall ?b1 tok call"
    by (simp add: failedCall_cache[OF pc])
  from Cons.IH[OF this] e step c show ?case
    by (auto simp add: nth_Cons' numeral_2_eq_2 numeral_3_eq_3)
qed



lemma executeSell_alerts: "alertsOf (snd (executeSell ex tok pct b)) = alertsOf b"
  by (simp add: executeSell_def getWalletHoldings_def sellToken_def notify_def alertsOf_def Let_def
           split: option.split)

text \<open>
  Claim C8, as amended. For a token whose failure count is clear, a run of consecutive
  failed price fetches sends one operator alert, when the third failure is counted, and
  none before or after it; a successful fetch clears the count and sends nothing. Sales
  are not counted: every failed take-profit sale sends an operator alert of its own.
\<close>

theorem failure_alerts:
  "(failureCount b tok = None \<and> (\<forall>call \<in> set calls. failedCall b tok call) \<longrightarrow>
      alertsOf (priceCalls tok calls b) =
        alertsOf b @ (if 3 \<le> length calls
                      then [PriceFeedWarning tok 3 (failureReason (snd (calls ! 2)))] else []))
   \<and> (cacheExpired b tok now \<and> 0 < p \<and> p < 10000000000 \<longrightarrow>
        failureCount (snd (getTokenPrice now (Quote p) tok b)) tok = None
        \<and> alertsOf (snd (getTokenPrice now (Quote p) tok b)) = alertsOf b)
   \<and> (i \<notin> set (executedTpLevels pos) \<and> profit_percent level \<le> profit
        \<and> \<not> fst (executeSell ex tok (sell_percent level) st) \<longrightarrow>
        alertsOf (snd (snd (takeProfitLevel ex tok price profit i level pos st))) =
          alertsOf st @ [TakeProfitFailed tok (i + 1) price (profit_percent level)])"
proof -
  have a: "alertsOf (priceCalls tok calls b) =
        alertsOf b @ (if 3 \<le> length calls
                      then [PriceFeedWarning tok 3 (failureReason (snd (calls ! 2)))] else [])"
    if "failureCount b tok = None" and "\<forall>call \<in> set calls. failedCall b tok call"
    using priceCalls_failed[OF that(2)] that(1) by (simp add: countOf_def)
  have c: "failureCount (snd (getTokenPrice now (Quote p) tok b)) tok = None
        \<and> alertsOf (snd (getTokenPrice now (Quote p) tok b)) = alertsOf b"
    if "cacheExpired b tok now" and "0 < p" and "p < 10000000000"
    using that
    by (auto simp add: cacheExpired_def getTokenPrice_def priceFromSource_def alertsOf_def
             split: option.splits)
  have d: "alertsOf (snd (snd (takeProfitLevel ex tok price profit i level pos st))) =
          alertsOf st @ [TakeProfitFailed tok (i + 1) price (profit_percent level)]"
    if "i \<notin> set (executedTpLevels pos)" and "profit_percent level \<le> profit"
      and "\<not> fst (executeSell ex tok (sell_percent level) st)"
    using that executeSell_alerts[of ex tok "sell_percent level" st]
    by (auto simp add: takeProfitLevel_def alertsOf_notify split: prod.splits bool.splits)
  from a c d show ?thesis by blast
qed

lemmas price_defs =
  getTokenPrice_def priceFromSource_def trackFailure_def notify_def alertsOf_def
  MAX_FAILURES_BEFORE_WARNING_def PRICE_CACHE_DURATION_def initialBot_def Let_def

text \<open>
  Five failed fetches in a row give the one alert of the third; two give none; one failed
  take-profit sale gives one alert.
\<close>

theorem failure_alerts_witness:
  "failureCount initialBot sampleToken = None
   \<and> list_all (failedCall initialBot sampleToken)
        [(0, NoQuote), (5000, FetchError), (10000, Quote 0), (15000, NoQuote), (20000, FetchError)]
   \<and> alertsOf (priceCalls sampleToken
        [(0, NoQuote), (5000, FetchError), (10000, Quote 0), (15000, NoQuote), (20000, FetchError)]
        initialBot) = [PriceFeedWarning sampleToken 3 ''suspicious_value'']
   \<and> alertsOf (priceCalls sampleToken [(0, NoQuote), (5000, FetchError)] initialBot) = []
   \<and> alertsOf (snd (snd (takeProfitLevel deafExchange sampleToken (13 / 10) 30 0 quickLock
        (sampleAt (2 / 5) False False 1 [] 0) (opened defaultConfig))))
       = [TakeProfitFailed sampleToken 1 (13 / 10) 30]"
proof -
  let ?calls = "[(0, NoQuote), (5000, FetchError), (10000, Quote 0), (15000, NoQuote), (20000, FetchError)]"
  have h1: "failureCount initialBot sampleToken = None" by (simp add: initialBot_def)
  have h2: "list_all (failedCall initialBot sampleToken) ?calls"
    by (simp add: failedCall_def cacheExpired_def badAnswer_def initialBot_def)
  then have h2': "\<forall>call \<in> set ?calls. failedCall initialBot sampleToken call"
    by (simp only: list_all_iff)
  from failure_alerts[of initialBot sampleToken ?calls] h1 h2'
  have c1: "alertsOf (priceCalls sampleToken ?calls initialBot)
            = [PriceFeedWarning sampleToken 3 ''suspicious_value'']"
    by (simp add: alertsOf_def initialBot_def failureReason_def)
  from failure_alerts[of initialBot sampleToken "[(0, NoQuote), (5000, FetchError)]"] h1 h2'
  have c2: "alertsOf (priceCalls sampleToken [(0, NoQuote), (5000, FetchError)] initialBot) = []"
    by (simp add: alertsOf_def initialBot_def)
  have f: "\<not> fst (executeSell deafExchange sampleToken (sell_percent quickLock) (opened defaultConfig))"
    by (simp add: executeSell_def getWalletHoldings_def deafExchange_def)
  from failure_alerts[where i = 0 and pos = "sampleAt (2 / 5) False False 1 [] 0"
         and level = quickLock and profit = 30 and ex = deafExchange and tok = sampleToken
         and st = "opened defaultConfig" and price = "13 / 10"] f
  have c3: "alertsOf (snd (snd (takeProfitLevel deafExchange sampleToken (13 / 10) 30 0 quickLock
        (sampleAt (2 / 5) False False 1 [] 0) (opened defaultConfig))))
       = [TakeProfitFailed sampleToken 1 (13 / 10) 30]"
    by (simp add: sampleAt_def quickLock_def alertsOf_def opened_def addPosition_def initialBot_def)
  from h1 h2 c1 c2 c3 show ?thesis by (intro conjI)
qed

text \<open>
  Claim C8 as stated fails for sales: with the execution service down, each of two ticks
  at 1.30 sends an alert for the failed first take-profit level, the first alert at the
  first failure.
\<close>

theorem sell_failure_alerts_counterexample:
  "alertsOf (opened defaultConfig) = []
   \<and> alertsOf (runTicks defaultConfig deafExchange sampleToken [13 / 10] (opened defaultConfig))
       = [TakeProfitFailed sampleToken 1 (13 / 10) 30]
   \<and> alertsOf (runTicks defaultConfig deafExchange sampleToken [13 / 10, 13 / 10] (opened defaultConfig))
       = [TakeProfitFailed sampleToken 1 (13 / 10) 30, TakeProfitFailed sampleToken 1 (13 / 10) 30]"
  by code_simp

section \<open>Claims on the trading engine\<close>














end
